theory Spec2Isabelle
  imports Complex_Main "HOL-Library.AList"
begin

section \<open>Python strings\<close>

text \<open>
  A Python \<open>str\<close> is modelled as a \<open>string\<close> over the ASCII range. The methods
  \<open>strip\<close>, \<open>upper\<close> and \<open>lower\<close> are written out for ASCII:
  the white space of \<open>str.strip()\<close> below code point 128 is the characters 9-13, 28-31
  and 32, and the case mappings act on the letters A-Z and a-z. Characters outside ASCII
  are left unchanged by the case mappings and are never white space (the Unicode case
  tables are not part of this development).
\<close>

definition isspace :: "char \<Rightarrow> bool" where
  "isspace c = (c \<in> set [CHR 0x09, CHR 0x0A, CHR 0x0B, CHR 0x0C, CHR 0x0D,
                          CHR 0x1C, CHR 0x1D, CHR 0x1E, CHR 0x1F, CHR 0x20])"

definition lstrip :: "string \<Rightarrow> string" where
  "lstrip s = dropWhile isspace s"

definition rstrip :: "string \<Rightarrow> string" where
  "rstrip s = rev (dropWhile isspace (rev s))"

definition strip :: "string \<Rightarrow> string" where
  "strip s = rstrip (lstrip s)"

definition ascii_uppercase :: string where
  "ascii_uppercase = ''ABCDEFGHIJKLMNOPQRSTUVWXYZ''"

definition ascii_lowercase :: string where
  "ascii_lowercase = ''abcdefghijklmnopqrstuvwxyz''"

definition lower_char :: "char \<Rightarrow> char" where
  "lower_char c = (case map_of (zip ascii_uppercase ascii_lowercase) c of
                     Some l \<Rightarrow> l | None \<Rightarrow> c)"

definition upper_char :: "char \<Rightarrow> char" where
  "upper_char c = (case map_of (zip ascii_lowercase ascii_uppercase) c of
                     Some u \<Rightarrow> u | None \<Rightarrow> c)"

definition lower :: "string \<Rightarrow> string" where
  "lower s = map lower_char s"

definition upper :: "string \<Rightarrow> string" where
  "upper s = map upper_char s"

definition startswith :: "string \<Rightarrow> string \<Rightarrow> bool" where
  "startswith s p = (take (length p) s = p)"

text \<open>The value of a decimal digit.\<close>

definition digit_val :: "char \<Rightarrow> nat option" where
  "digit_val c = map_of (zip ''0123456789'' [0, 1, 2, 3, 4, 5, 6, 7, 8, 9]) c"

section \<open>City resolver (main.py)\<close>

text \<open>
  City names are Python strings over all of Unicode, and the resolver depends on three
  functions of Python's \<open>str\<close> that rest on the Unicode character tables. They are
  parameters here, over any type \<open>'c\<close> of characters:
  \<^item> \<open>u_isspace\<close>: whether a character is white space, which is what \<open>str.strip()\<close>
    removes at both ends;
  \<^item> \<open>u_fold\<close>: the full case folding of a character, a string of one to three
    characters; \<open>str.casefold()\<close> replaces every character by its folding;
  \<^item> \<open>u_int\<close>: \<open>int(s)\<close> on a string, \<open>None\<close> when it raises \<open>ValueError\<close>.
\<close>

record 'c str_lib =
  u_isspace :: "'c \<Rightarrow> bool"
  u_fold :: "'c \<Rightarrow> 'c list"
  u_int :: "'c list \<Rightarrow> int option"

definition strip_with :: "('c \<Rightarrow> bool) \<Rightarrow> 'c list \<Rightarrow> 'c list" where
  "strip_with sp s = rev (dropWhile sp (rev (dropWhile sp s)))"

definition casefold_with :: "('c \<Rightarrow> 'c list) \<Rightarrow> 'c list \<Rightarrow> 'c list" where
  "casefold_with fold_char s = concat (map fold_char s)"

definition normalize_city_name :: "'c str_lib \<Rightarrow> 'c list \<Rightarrow> 'c list" where
  "normalize_city_name L name = casefold_with (u_fold L) (strip_with (u_isspace L) name)"

text \<open>
  \<open>_CITY_NAME_TO_ID\<close> is the module-level cache, a dict from normalised city name to
  city id; dicts are association lists here (insertion order, one entry per key, updated
  with \<open>AList.update\<close>). The CSV file is what \<open>csv.DictReader\<close> yields: \<open>None\<close> when
  the file does not exist, otherwise the rows, each a partial map from column name to cell.
\<close>

type_synonym 'c csv_row = "string \<Rightarrow> 'c list option"

text \<open>\<open>a or b\<close> on optional strings: the first operand when it is a non-empty string.\<close>

definition str_or :: "'c list option \<Rightarrow> 'c list option \<Rightarrow> 'c list option" where
  "str_or a b = (case a of Some (c # cs) \<Rightarrow> a | _ \<Rightarrow> b)"

text \<open>
  \<open>int(row.get("city_id") or row.get("cityId") or 0)\<close>, \<open>None\<close> when \<open>int\<close> raises, and
  \<open>row.get("city") or row.get("city_name") or ""\<close>.
\<close>

definition row_id :: "'c str_lib \<Rightarrow> 'c csv_row \<Rightarrow> int option" where
  "row_id L row =
     (case str_or (row ''city_id'') (row ''cityId'') of
        Some (c # cs) \<Rightarrow> u_int L (c # cs)
      | _ \<Rightarrow> Some 0)"

definition row_name :: "'c csv_row \<Rightarrow> 'c list" where
  "row_name row =
     (case str_or (row ''city'') (row ''city_name'') of Some (c # cs) \<Rightarrow> c # cs | _ \<Rightarrow> [])"

text \<open>
  One iteration of the loop over the rows: a \<open>ValueError\<close> of \<open>int\<close> skips the row
  (\<open>continue\<close>); the entry is stored when both the id and the name are truthy.
\<close>

definition load_row ::
  "'c str_lib \<Rightarrow> 'c csv_row \<Rightarrow> ('c list \<times> int) list \<Rightarrow> ('c list \<times> int) list" where
  "load_row L row mapping =
     (case row_id L row of
        None \<Rightarrow> mapping
      | Some city_id \<Rightarrow>
          if city_id \<noteq> 0 \<and> row_name row \<noteq> []
          then AList.update (normalize_city_name L (row_name row)) city_id mapping
          else mapping)"

text \<open>
  \<open>load_city_mapping\<close> returns the mapping and the new value of the cache. A non-empty
  cache is returned as it is; otherwise the table is built from the file (empty when the
  file does not exist) and stored in the cache.
\<close>

definition load_city_mapping ::
  "'c str_lib \<Rightarrow> ('c list \<times> int) list \<Rightarrow> 'c csv_row list option
     \<Rightarrow> ('c list \<times> int) list \<times> ('c list \<times> int) list" where
  "load_city_mapping L cache csv =
     (if cache \<noteq> [] then (cache, cache)
      else (let mapping = (case csv of None \<Rightarrow> [] | Some rows \<Rightarrow> fold (load_row L) rows [])
            in (mapping, mapping)))"

definition map_city_to_id ::
  "'c str_lib \<Rightarrow> ('c list \<times> int) list \<Rightarrow> 'c csv_row list option \<Rightarrow> 'c list
     \<Rightarrow> int option \<times> ('c list \<times> int) list" where
  "map_city_to_id L cache csv city_name =
     (let (mapping, cache') = load_city_mapping L cache csv
      in (map_of mapping (normalize_city_name L city_name), cache'))"

text \<open>
  A property of the Unicode tables that the resolver relies on: two characters with the
  same case folding are both white space or both not (white space characters fold to
  themselves, and nothing else folds to a white space character).
\<close>

definition fold_respects_space :: "'c str_lib \<Rightarrow> bool" where
  "fold_respects_space L = (\<forall>x y. u_fold L x = u_fold L y \<longrightarrow> u_isspace L x = u_isspace L y)"

text \<open>
  An instance of the three functions, on code points, for the characters up to U+00FF
  (the instance is used on such characters only):
  \<^item> the white space among them: 9-13, 28-32, U+0085 and the no-break space U+00A0;
  \<^item> their case folding: A-Z and the capitals U+00C0-U+00DE (the multiplication sign
    apart) fold to the small letter 32 code points above, the sharp s U+00DF folds to
    \<open>ss\<close>, the micro sign U+00B5 to the Greek small mu U+03BC, every other character to
    itself;
  \<^item> \<open>int(s)\<close>: surrounding white space, an optional sign, then decimal digits in which
    single underscores may separate digits.
\<close>

definition latin1_isspace :: "nat \<Rightarrow> bool" where
  "latin1_isspace c = (c \<in> set [9, 10, 11, 12, 13, 28, 29, 30, 31, 32, 133, 160])"

definition latin1_fold :: "nat \<Rightarrow> nat list" where
  "latin1_fold c =
     (if (65 \<le> c \<and> c \<le> 90) \<or> (192 \<le> c \<and> c \<le> 222 \<and> c \<noteq> 215) then [c + 32]
      else if c = 223 then [115, 115]
      else if c = 181 then [956]
      else [c])"

definition latin1_isdigit :: "nat \<Rightarrow> bool" where
  "latin1_isdigit c = (48 \<le> c \<and> c \<le> 57)"

fun latin1_digits :: "nat \<Rightarrow> bool \<Rightarrow> nat list \<Rightarrow> nat option" where
  "latin1_digits acc after_digit [] = (if after_digit then Some acc else None)"
| "latin1_digits acc after_digit (c # cs) =
     (if latin1_isdigit c then latin1_digits (acc * 10 + (c - 48)) True cs
      else if c = 95 \<and> after_digit
           then (case cs of
                   [] \<Rightarrow> None
                 | c' # _ \<Rightarrow> if latin1_isdigit c' then latin1_digits acc False cs else None)
           else None)"

definition latin1_int :: "nat list \<Rightarrow> int option" where
  "latin1_int s =
     (case strip_with latin1_isspace s of
        [] \<Rightarrow> None
      | c # cs \<Rightarrow>
          if c = 45 then map_option (\<lambda>n. - int n) (latin1_digits 0 False cs)
          else if c = 43 then map_option int (latin1_digits 0 False cs)
          else map_option int (latin1_digits 0 False (c # cs)))"

definition latin1_lib :: "nat str_lib" where
  "latin1_lib = \<lparr>u_isspace = latin1_isspace, u_fold = latin1_fold, u_int = latin1_int\<rparr>"

text \<open>
  A city file of four rows, as code points: \<open>Paris\<close> with \<open>city_id\<close> 15470;
  Zurich, spelt with the u with diaeresis U+00FC, under the alternative columns
  \<open>cityId\<close> and \<open>city_name\<close>, its \<open>city_id\<close> cell empty; \<open>Rome\<close> with the id
  \<open>n/a\<close>, which \<open>int\<close> rejects; \<open>Oslo\<close> with the id 0.
\<close>

definition city_csv_example :: "nat csv_row list" where
  "city_csv_example =
     [[''city_id'' \<mapsto> [49, 53, 52, 55, 48], ''city'' \<mapsto> [80, 97, 114, 105, 115]],
      [''city_id'' \<mapsto> [], ''cityId'' \<mapsto> [57],
       ''city_name'' \<mapsto> [90, 252, 114, 105, 99, 104]],
      [''city_id'' \<mapsto> [110, 47, 97], ''city'' \<mapsto> [82, 111, 109, 101]],
      [''city_id'' \<mapsto> [48], ''city'' \<mapsto> [79, 115, 108, 111]]]"

section \<open>Errors and JSON values\<close>

text \<open>
  The exceptions the code raises or lets through. \<open>JSONDecodeError\<close> is what
  \<open>json.loads\<close> raises on text that is not well-formed JSON; \<open>OSError\<close> is what
  \<open>open\<close> raises, \<open>DatabaseError\<close> what the database driver raises on a statement
  that Postgres rejects, and \<open>AgentError\<close> stands for any exception of the agent
  runtime.
\<close>

datatype py_error =
    ValueError string
  | RuntimeError string
  | JSONDecodeError
  | KeyError string
  | TypeError
  | AttributeError
  | OverflowError
  | OSError
  | DatabaseError
  | AgentError string

text \<open>
  What \<open>json.loads\<close> returns: \<open>None\<close>, a bool, an int, a float, a str, a list or a
  dict with string keys (an association list in insertion order). Floats are carried by
  their exact value; NaN and the infinities, which JSON proper does not have, are left out.
\<close>

datatype json =
    JNull
  | JBool bool
  | JInt int
  | JFloat rat
  | JStr string
  | JArr "json list"
  | JObj "(string \<times> json) list"

text \<open>Python truthiness (\<open>bool(v)\<close>, \<open>not v\<close>, the operands of \<open>or\<close>).\<close>

fun truthy :: "json \<Rightarrow> bool" where
  "truthy JNull = False"
| "truthy (JBool b) = b"
| "truthy (JInt i) = (i \<noteq> 0)"
| "truthy (JFloat r) = (r \<noteq> 0)"
| "truthy (JStr s) = (s \<noteq> [])"
| "truthy (JArr xs) = (xs \<noteq> [])"
| "truthy (JObj kvs) = (kvs \<noteq> [])"

definition py_or :: "json \<Rightarrow> json \<Rightarrow> json" where
  "py_or a b = (if truthy a then a else b)"

text \<open>\<open>d.get(k)\<close> on a dict: the value, or \<open>None\<close> when the key is missing.\<close>

definition dict_get :: "(string \<times> json) list \<Rightarrow> string \<Rightarrow> json" where
  "dict_get d k = (case map_of d k of Some v \<Rightarrow> v | None \<Rightarrow> JNull)"

fun is_dict :: "json \<Rightarrow> bool" where
  "is_dict (JObj kvs) = True"
| "is_dict _ = False"

fun is_list :: "json \<Rightarrow> bool" where
  "is_list (JArr xs) = True"
| "is_list _ = False"

section \<open>Itinerary store (storage.py, db.py)\<close>

text \<open>
  The state the store works on. For the database backend: whether a database URL is
  configured (\<open>use_db()\<close>), whether a Postgres driver could be imported (\<open>_driver\<close> of
  db.py), and the table \<open>itineraries\<close>, from conversation id to the stored \<open>jsonb\<close>
  value as its \<open>::text\<close> rendering. For the file backend: the folder \<open>itineraries\<close>,
  \<open>None\<close> when it does not exist, otherwise its files, from file name to content.

  The file system is a POSIX one and the folder holds regular files only. So a path
  \<open>itineraries/<name>\<close> can be created exactly when the name has no \<open>/\<close> (it would
  lead into a directory that does not exist), no NUL character and at most \<open>NAME_MAX\<close>
  bytes, and only such names exist. Text is written as it is and read back with
  universal newlines (\<open>open(path, "r")\<close>). The driver sends a conversation id to
  Postgres as a \<open>text\<close> parameter and refuses one that holds a NUL character;
  \<open>DatabaseError\<close> stands for the error that the driver or Postgres raises. Failures of
  the connection to the database and of the disk are not modelled.

  \<open>json.loads\<close> is the parameter \<open>loads\<close> (\<open>None\<close> when it raises) and the cast
  \<open>%s::jsonb\<close> of Postgres is the parameter \<open>jsonb\<close>: the rendering of the value, or
  \<open>None\<close> when Postgres rejects the text.
\<close>

record store =
  use_db :: bool
  driver :: bool
  itineraries :: "string \<Rightarrow> string option"
  folder :: "(string \<Rightarrow> string option) option"

definition ITINERARY_FOLDER :: string where
  "ITINERARY_FOLDER = ''itineraries''"

definition file_name :: "string \<Rightarrow> string" where
  "file_name conversation_id = ''itinerary_'' @ conversation_id @ ''.json''"

definition file_path :: "string \<Rightarrow> string" where
  "file_path conversation_id = ITINERARY_FOLDER @ ''/'' @ file_name conversation_id"

definition NAME_MAX :: nat where
  "NAME_MAX = 255"

definition creatable :: "string \<Rightarrow> bool" where
  "creatable name =
     (CHR ''/'' \<notin> set name \<and> CHR 0x00 \<notin> set name \<and> length name \<le> NAME_MAX)"

definition ensure_folder :: "store \<Rightarrow> store" where
  "ensure_folder st =
     (case folder st of None \<Rightarrow> st\<lparr>folder := Some (\<lambda>name. None)\<rparr> | Some fs \<Rightarrow> st)"



text \<open>
  \<open>with open(path, "w", encoding="utf-8") as f: f.write(text)\<close>: a NUL in the path is a
  \<open>ValueError\<close>, a path that cannot be created an \<open>OSError\<close>.
\<close>

definition open_write :: "store \<Rightarrow> string \<Rightarrow> string \<Rightarrow> py_error + store" where
  "open_write st name text =
     (if CHR 0x00 \<in> set name then Inl (ValueError ''embedded null byte'')
      else (case folder st of
              None \<Rightarrow> Inl OSError
            | Some fs \<Rightarrow>
                if CHR ''/'' \<in> set name \<or> NAME_MAX < length name then Inl OSError
                else Inr (st\<lparr>folder := Some (fs(name \<mapsto> text))\<rparr>)))"


definition no_driver :: py_error where
  "no_driver = RuntimeError
     (''No Postgres driver found. Install either ''
      @ [CHR 0x27] @ ''psycopg[binary]'' @ [CHR 0x27] @ '' (v3) or ''
      @ [CHR 0x27] @ ''psycopg2-binary'' @ [CHR 0x27] @ ''.'')"

definition pg_text :: "string \<Rightarrow> bool" where
  "pg_text s = (CHR 0x00 \<notin> set s)"


definition write_itinerary_json ::
  "(string \<Rightarrow> json option) \<Rightarrow> (string \<Rightarrow> string option) \<Rightarrow> store \<Rightarrow> string \<Rightarrow> string
     \<Rightarrow> (py_error + string) \<times> store" where
  "write_itinerary_json loads jsonb st conversation_id itinerary_json =
     (case loads itinerary_json of
        None \<Rightarrow> (Inl JSONDecodeError, st)
      | Some parsed \<Rightarrow>
          if use_db st then
            (if \<not> driver st then (Inl no_driver, st)
             else if \<not> pg_text conversation_id then (Inl DatabaseError, st)
             else (case jsonb itinerary_json of
                     None \<Rightarrow> (Inl DatabaseError, st)
                   | Some v \<Rightarrow>
                       (Inr itinerary_json,
                        st\<lparr>itineraries := (itineraries st)(conversation_id \<mapsto> v)\<rparr>)))
          else
            (let st' = ensure_folder st in
             case open_write st' (file_name conversation_id) itinerary_json of
               Inl e \<Rightarrow> (Inl e, st')
             | Inr st'' \<Rightarrow> (Inr itinerary_json, st'')))"





section \<open>Rendering an itinerary (main.py, \<open>format_itinerary_for_display\<close>)\<close>

definition bnd :: "'e + 'a \<Rightarrow> ('a \<Rightarrow> 'e + 'b) \<Rightarrow> 'e + 'b" where
  "bnd m f = (case m of Inl e \<Rightarrow> Inl e | Inr v \<Rightarrow> f v)"

definition nl :: string where
  "nl = [CHR 0x0A]"

fun join :: "string \<Rightarrow> string list \<Rightarrow> string" where
  "join sep [] = []"
| "join sep [x] = x"
| "join sep (x # y # ys) = x @ sep @ join sep (y # ys)"

definition digit_char :: "nat \<Rightarrow> char" where
  "digit_char d = ''0123456789'' ! d"

fun str_nat :: "nat \<Rightarrow> string" where
  "str_nat n = (if n < 10 then [digit_char n] else str_nat (n div 10) @ [digit_char (n mod 10)])"

definition str_int :: "int \<Rightarrow> string" where
  "str_int i = (if i < 0 then CHR ''-'' # str_nat (nat (- i)) else str_nat (nat i))"

text \<open>
  \<open>str(v)\<close>, which is also what an f-string field shows. For \<open>None\<close>, bools, ints and
  strings it is written out; for floats, lists and dicts it is the parameter \<open>repr\<close>
  (Python's \<open>repr\<close> of the value).
\<close>

fun py_str :: "(json \<Rightarrow> string) \<Rightarrow> json \<Rightarrow> string" where
  "py_str repr JNull = ''None''"
| "py_str repr (JBool b) = (if b then ''True'' else ''False'')"
| "py_str repr (JInt i) = str_int i"
| "py_str repr (JStr s) = s"
| "py_str repr v = repr v"

text \<open>\<open>v[k]\<close> with a string key: a dict gives the value or \<open>KeyError\<close>; anything else \<open>TypeError\<close>.\<close>

fun subscript :: "json \<Rightarrow> string \<Rightarrow> py_error + json" where
  "subscript (JObj d) k = (case map_of d k of Some v \<Rightarrow> Inr v | None \<Rightarrow> Inl (KeyError k))"
| "subscript v k = Inl TypeError"

text \<open>
  Iterating over a value: a list yields its elements, a string its characters, a dict its
  keys; the other values are not iterable.
\<close>

fun py_iter :: "json \<Rightarrow> py_error + json list" where
  "py_iter (JArr xs) = Inr xs"
| "py_iter (JStr s) = Inr (map (\<lambda>c. JStr [c]) s)"
| "py_iter (JObj d) = Inr (map (\<lambda>kv. JStr (fst kv)) d)"
| "py_iter v = Inl TypeError"

fun is_str :: "json \<Rightarrow> bool" where
  "is_str (JStr s) = True"
| "is_str _ = False"

fun str_of :: "json \<Rightarrow> string" where
  "str_of (JStr s) = s"
| "str_of _ = []"

text \<open>\<open>', '.join(v)\<close>: every element of the iterable has to be a string.\<close>

definition join_json :: "string \<Rightarrow> json \<Rightarrow> py_error + string" where
  "join_json sep v =
     bnd (py_iter v) (\<lambda>xs. if list_all is_str xs then Inr (join sep (map str_of xs))
                            else Inl TypeError)"

text \<open>\<open>len(v) if hasattr(v, '__len__') else None\<close>.\<close>

fun py_len :: "json \<Rightarrow> nat option" where
  "py_len (JStr s) = Some (length s)"
| "py_len (JArr xs) = Some (length xs)"
| "py_len (JObj d) = Some (length d)"
| "py_len _ = None"

text \<open>\<open>resp.get("results") or resp.get("hotels") or resp.get("properties") or []\<close>.\<close>

definition result_items :: "(string \<times> json) list \<Rightarrow> json" where
  "result_items d =
     py_or (dict_get d ''results'')
       (py_or (dict_get d ''hotels'') (py_or (dict_get d ''properties'') (JArr [])))"

definition acc_str :: "(json \<Rightarrow> string) \<Rightarrow> json \<Rightarrow> string" where
  "acc_str repr acc =
     (case acc of
        JArr xs \<Rightarrow>
          if list_all is_str xs then join '', '' (map str_of xs)
          else ''Agoda response list with '' @ str_nat (length xs) @ '' entries''
      | JObj d \<Rightarrow>
          ''Agoda response with ''
            @ (case py_len (result_items d) of Some n \<Rightarrow> str_nat n | None \<Rightarrow> ''unknown'')
            @ '' items''
      | JNull \<Rightarrow> ''None''
      | _ \<Rightarrow> py_str repr acc)"

definition format_day :: "(json \<Rightarrow> string) \<Rightarrow> json \<Rightarrow> py_error + string" where
  "format_day repr day =
     bnd (subscript day ''day_number'') (\<lambda>day_number.
     bnd (subscript day ''date'') (\<lambda>date.
     bnd (subscript day ''location'') (\<lambda>location.
     bnd (subscript day ''activities'') (\<lambda>activities.
     bnd (join_json '', '' activities) (\<lambda>activities_str.
     bnd (subscript day ''transportation'') (\<lambda>transportation.
     bnd (subscript day ''notes'') (\<lambda>notes.
       Inr (''Day '' @ py_str repr day_number @ '' ('' @ py_str repr date @ ''):'' @ nl
            @ ''  Location: '' @ py_str repr location @ nl
            @ ''  Activities: '' @ activities_str @ nl
            @ ''  Transportation: '' @ py_str repr transportation @ nl
            @ ''  Accommodation: ''
            @ acc_str repr (case day of JObj d \<Rightarrow> dict_get d ''accommodation'' | _ \<Rightarrow> JNull)
            @ nl
            @ ''  Notes: '' @ py_str repr notes @ nl @ nl))))))))"

fun format_days :: "(json \<Rightarrow> string) \<Rightarrow> json list \<Rightarrow> py_error + string" where
  "format_days repr [] = Inr []"
| "format_days repr (day # days) =
     bnd (format_day repr day) (\<lambda>s. bnd (format_days repr days) (\<lambda>rest. Inr (s @ rest)))"

definition format_itinerary_for_display ::
  "(string \<Rightarrow> json option) \<Rightarrow> (json \<Rightarrow> string) \<Rightarrow> string \<Rightarrow> py_error + string" where
  "format_itinerary_for_display loads repr itinerary_json =
     (case loads itinerary_json of
        None \<Rightarrow> Inl JSONDecodeError
      | Some itinerary \<Rightarrow>
          bnd (subscript itinerary ''destination'') (\<lambda>dest.
          bnd (subscript itinerary ''description'') (\<lambda>descr.
          bnd (subscript itinerary ''start_date'') (\<lambda>sd.
          bnd (subscript itinerary ''end_date'') (\<lambda>ed.
          bnd (subscript itinerary ''duration_days'') (\<lambda>dur.
          bnd (subscript itinerary ''itinerary'') (\<lambda>days_v.
          bnd (py_iter days_v) (\<lambda>days.
          bnd (format_days repr days) (\<lambda>days_str.
            Inr (''Trip to '' @ py_str repr dest @ nl
                 @ ''Description: '' @ py_str repr descr @ nl
                 @ ''Dates: '' @ py_str repr sd @ '' to '' @ py_str repr ed
                 @ '' ('' @ py_str repr dur @ '' days)'' @ nl @ nl
                 @ ''Itinerary:'' @ nl
                 @ days_str))))))))))"

section \<open>Agents, produced items and sessions (main.py, api.py)\<close>

datatype agent =
    user_preferences_agent
  | destination_research_agent
  | itinerary_agent
  | booking_agent
  | summary_agent

fun agent_name :: "agent \<Rightarrow> string" where
  "agent_name user_preferences_agent = ''user_preferences_agent''"
| "agent_name destination_research_agent = ''destination_research_agent''"
| "agent_name itinerary_agent = ''itinerary_agent''"
| "agent_name booking_agent = ''booking_agent''"
| "agent_name summary_agent = ''summary_agent''"

definition agent_by_key :: "(string \<times> agent) list" where
  "agent_by_key =
     [(''user_preferences'', user_preferences_agent),
      (''destination_research'', destination_research_agent),
      (''itinerary'', itinerary_agent),
      (''booking'', booking_agent),
      (''summary'', summary_agent)]"

text \<open>
  The items of \<open>response.new_items\<close>. A message carries the text that
  \<open>ItemHelpers.text_message_output\<close> extracts from it; a handoff event carries its source
  and its target agent; a tool result carries its agent and the tool's return value
  (\<open>None\<close> when it is not a string). \<open>OtherItem\<close> is any other kind of run item.
\<close>

datatype item =
    MessageOutputItem string
  | HandoffOutputItem agent agent
  | ToolCallItem agent
  | ToolCallOutputItem agent "string option"
  | OtherItem

text \<open>
  Transcript entries: the dicts \<open>{"content": ..., "role": ...}\<close> that the code appends,
  and the entries the runtime derives from its run items.
\<close>

datatype input_item =
    InputItem (content: string) (role: string)
  | RunInput item

record TripPlannerContext =
  destination :: "string option"
  start_date :: "string option"
  end_date :: "string option"
  budget :: "string option"
  travel_style :: "string option"
  number_of_people :: "int option"
  conversation_id :: "string option"

text \<open>
  What \<open>Runner.run\<close> returns: the new items and the list \<open>to_input_list()\<close> gives.
  \<open>Runner.run\<close> itself is a parameter: from the active agent, the transcript and the
  context it yields a result or raises, and leaves the context (which tools update in
  place) in some state.
\<close>

record run_result =
  new_items :: "item list"
  to_input_list :: "input_item list"

type_synonym runner =
  "agent \<Rightarrow> input_item list \<Rightarrow> TripPlannerContext \<Rightarrow> (py_error + run_result) \<times> TripPlannerContext"

record session =
  s_conversation_id :: string
  current_agent :: agent
  items :: "input_item list"
  s_context :: TripPlannerContext

definition new_session :: "string \<Rightarrow> session" where
  "new_session conv_id =
     \<lparr>s_conversation_id = conv_id, current_agent = user_preferences_agent, items = [],
      s_context = \<lparr>destination = None, start_date = None, end_date = None, budget = None,
                 travel_style = None, number_of_people = None,
                 conversation_id = Some conv_id\<rparr>\<rparr>"

text \<open>
  \<open>_get_or_create_session\<close>: \<open>uuid\<close> is the value of \<open>uuid.uuid4().hex[:16]\<close>; the
  registry \<open>_sessions\<close> is returned with the session.
\<close>

definition get_or_create_session ::
  "(string \<Rightarrow> session option) \<Rightarrow> string \<Rightarrow> string option
     \<Rightarrow> session \<times> (string \<Rightarrow> session option)" where
  "get_or_create_session sessions uuid requested_id =
     (let conv_id = (case requested_id of Some (c # cs) \<Rightarrow> c # cs | _ \<Rightarrow> uuid) in
      case sessions conv_id of
        None \<Rightarrow> (new_session conv_id, sessions(conv_id \<mapsto> new_session conv_id))
      | Some s \<Rightarrow> (s, sessions))"

section \<open>The text protocol for handoffs\<close>

text \<open>\<open>s.split(":", 1)[1]\<close>: what follows the first colon; \<open>None\<close> is the \<open>IndexError\<close>.\<close>

definition after_colon :: "string \<Rightarrow> string option" where
  "after_colon s =
     (case dropWhile (\<lambda>c. c \<noteq> CHR '':'') s of [] \<Rightarrow> None | c # rest \<Rightarrow> Some rest)"

text \<open>
  The test both front ends make on a message text: \<open>None\<close> when the stripped text does
  not start with the marker, otherwise the target key (or the \<open>IndexError\<close> of the split).
\<close>

definition handoff_target_key :: "string \<Rightarrow> (py_error + string) option" where
  "handoff_target_key text =
     (let stripped = strip text in
      if startswith (upper stripped) ''HANDOFF:''
      then Some (case after_colon stripped of
                   None \<Rightarrow> Inl (ValueError ''IndexError'')
                 | Some rest \<Rightarrow> Inr (lower (strip rest)))
      else None)"

definition system_entry :: "string \<Rightarrow> input_item" where
  "system_entry conv_id = InputItem (''Conversation ID: '' @ conv_id) ''system''"

section \<open>One chat turn of the API (api.py)\<close>

definition itinerary_keys :: "string list" where
  "itinerary_keys = [''destination'', ''start_date'', ''end_date'', ''itinerary'']"

text \<open>\<open>isinstance(parsed, dict) and {...}.issubset(parsed.keys())\<close>.\<close>

definition itinerary_shaped :: "json option \<Rightarrow> bool" where
  "itinerary_shaped parsed =
     (case parsed of
        Some (JObj d) \<Rightarrow> list_all (\<lambda>k. map_of d k \<noteq> None) itinerary_keys
      | _ \<Rightarrow> False)"

text \<open>
  \<open>_format_message\<close> of api.py. \<open>loads\<close> and \<open>dumps\<close> are \<open>json.loads\<close> and
  \<open>json.dumps\<close>; every exception inside is caught by the function itself.
\<close>

definition format_message_api ::
  "(string \<Rightarrow> json option) \<Rightarrow> (json \<Rightarrow> string) \<Rightarrow> (json \<Rightarrow> string) \<Rightarrow> item \<Rightarrow> string" where
  "format_message_api loads dumps repr it =
     (case it of
        MessageOutputItem text \<Rightarrow>
          if text = [] then []
          else (let parsed = loads text in
                if itinerary_shaped parsed
                then (case format_itinerary_for_display loads repr (dumps (the parsed)) of
                        Inr s \<Rightarrow> s
                      | Inl e \<Rightarrow> ''Itinerary updated.'')
                else text)
      | HandoffOutputItem source target \<Rightarrow>
          ''Handed off from '' @ agent_name source @ '' to '' @ agent_name target
      | ToolCallItem a \<Rightarrow> agent_name a @ '': Calling a tool''
      | ToolCallOutputItem a out \<Rightarrow>
          (let parsed = (case out of None \<Rightarrow> None | Some s \<Rightarrow> loads s) in
           if itinerary_shaped parsed
           then (case format_itinerary_for_display loads repr (dumps (the parsed)) of
                   Inr s \<Rightarrow> s
                 | Inl e \<Rightarrow> agent_name a @ '': Itinerary updated.'')
           else agent_name a @ '': Tool completed.'')
      | OtherItem \<Rightarrow> [])"

text \<open>
  The state of the loop over \<open>response.new_items\<close> in \<open>chat\<close>: the rendered lines, the
  agent that will be active, and \<open>session.items\<close>.
\<close>

record loop_state =
  bot_response :: "string list"
  new_current_agent :: agent
  session_items :: "input_item list"

definition chat_item ::
  "(string \<Rightarrow> json option) \<Rightarrow> (json \<Rightarrow> string) \<Rightarrow> (json \<Rightarrow> string) \<Rightarrow> string
     \<Rightarrow> item \<Rightarrow> loop_state \<Rightarrow> py_error + loop_state" where
  "chat_item loads dumps repr conv_id it ls =
     (let formatted = format_message_api loads dumps repr it;
          ls1 = (if formatted \<noteq> [] then ls\<lparr>bot_response := bot_response ls @ [formatted]\<rparr>
                 else ls)
      in case it of
           HandoffOutputItem source target \<Rightarrow> Inr (ls1\<lparr>new_current_agent := target\<rparr>)
         | MessageOutputItem text \<Rightarrow>
             (case handoff_target_key text of
                None \<Rightarrow> Inr ls1
              | Some (Inl e) \<Rightarrow> Inl e
              | Some (Inr target_key) \<Rightarrow>
                  (case map_of agent_by_key target_key of
                     None \<Rightarrow> Inr ls1
                   | Some a \<Rightarrow>
                       Inr (ls1\<lparr>new_current_agent := a,
                                session_items := session_items ls1 @ [system_entry conv_id]\<rparr>)))
         | _ \<Rightarrow> Inr ls1)"

fun chat_items ::
  "(string \<Rightarrow> json option) \<Rightarrow> (json \<Rightarrow> string) \<Rightarrow> (json \<Rightarrow> string) \<Rightarrow> string
     \<Rightarrow> item list \<Rightarrow> loop_state \<Rightarrow> py_error + loop_state" where
  "chat_items loads dumps repr conv_id [] ls = Inr ls"
| "chat_items loads dumps repr conv_id (it # its) ls =
     bnd (chat_item loads dumps repr conv_id it ls) (chat_items loads dumps repr conv_id its)"

record ChatRequest =
  message :: string
  req_conversation_id :: "string option"

record ChatResponse =
  resp_conversation_id :: string
  reply :: string
  resp_current_agent :: string

text \<open>
  \<open>chat\<close> on the session of the request (the lock, which serialises the turns of one
  conversation, is not part of the model). The user's message is appended to
  \<open>session.items\<close> before \<open>Runner.run\<close>; an exception of \<open>Runner.run\<close> leaves the
  function at that point. Afterwards the items are processed, the agent pointer is
  assigned, and \<open>session.items\<close> is replaced by \<open>response.to_input_list()\<close>.
\<close>

text \<open>
  The context \<open>chat\<close> passes to \<open>Runner.run\<close>: \<open>if not getattr(session.context,
  "conversation_id", None): session.context.conversation_id = session.conversation_id\<close>.
\<close>

definition turn_context :: "session \<Rightarrow> TripPlannerContext" where
  "turn_context s =
     (case conversation_id (s_context s) of
        Some (c # cs) \<Rightarrow> s_context s
      | _ \<Rightarrow> (s_context s)\<lparr>conversation_id := Some (s_conversation_id s)\<rparr>)"

definition chat_session ::
  "runner \<Rightarrow> (string \<Rightarrow> json option) \<Rightarrow> (json \<Rightarrow> string) \<Rightarrow> (json \<Rightarrow> string)
     \<Rightarrow> session \<Rightarrow> string \<Rightarrow> (py_error + ChatResponse) \<times> session" where
  "chat_session run loads dumps repr s msg =
     (let ctx0 = turn_context s;
          items1 = items s @ [InputItem msg ''user''];
          (res, ctx1) = run (current_agent s) items1 ctx0;
          s1 = s\<lparr>items := items1, s_context := ctx1\<rparr>
      in case res of
           Inl e \<Rightarrow> (Inl e, s1)
         | Inr response \<Rightarrow>
             (case chat_items loads dumps repr (s_conversation_id s) (new_items response)
                     \<lparr>bot_response = [], new_current_agent = current_agent s1,
                      session_items = items s1\<rparr> of
                Inl e \<Rightarrow> (Inl e, s1)
              | Inr ls \<Rightarrow>
                  (let s2 = s1\<lparr>current_agent := new_current_agent ls,
                               items := to_input_list response\<rparr>;
                       stripped = strip (join nl (bot_response ls));
                       reply_text = (if stripped \<noteq> [] then stripped else ''Noted.'')
                   in (Inr \<lparr>resp_conversation_id = s_conversation_id s2, reply = reply_text,
                             resp_current_agent = agent_name (current_agent s2)\<rparr>,
                       s2))))"

definition chat ::
  "runner \<Rightarrow> (string \<Rightarrow> json option) \<Rightarrow> (json \<Rightarrow> string) \<Rightarrow> (json \<Rightarrow> string) \<Rightarrow> string
     \<Rightarrow> (string \<Rightarrow> session option) \<Rightarrow> ChatRequest
     \<Rightarrow> (py_error + ChatResponse) \<times> (string \<Rightarrow> session option)" where
  "chat run loads dumps repr uuid sessions req =
     (let (s, sessions1) = get_or_create_session sessions uuid (req_conversation_id req);
          (res, s') = chat_session run loads dumps repr s (message req)
      in (res, sessions1(s_conversation_id s \<mapsto> s')))"

section \<open>One turn of the console loop (main.py)\<close>

text \<open>
  The body of \<open>while True\<close> in \<open>main\<close>, without what it prints. The state is the
  active agent, \<open>input_items\<close> and the context; \<open>conversation_id\<close> is fixed when the
  loop starts. An exception of \<open>Runner.run\<close> is caught and the loop continues with the
  next input. In the loop over the items, a recognised text marker ends the loop
  (\<open>break\<close>); \<open>format_itinerary_for_display\<close> runs on every text that \<open>json.loads\<close>
  accepts and its exceptions are not caught, nor is the \<open>TypeError\<close> of \<open>json.loads\<close>
  on a tool result that is not a string.
\<close>

record main_state =
  m_current_agent :: agent
  input_items :: "input_item list"
  m_context :: TripPlannerContext

text \<open>
  \<open>try: json.loads(text); print(format_itinerary_for_display(text)) except
  json.JSONDecodeError: print(text)\<close>: nothing but a possible exception remains of it.
\<close>

definition show_if_json ::
  "(string \<Rightarrow> json option) \<Rightarrow> (json \<Rightarrow> string) \<Rightarrow> string \<Rightarrow> py_error + unit" where
  "show_if_json loads repr text =
     (case loads text of
        None \<Rightarrow> Inr ()
      | Some v \<Rightarrow> bnd (format_itinerary_for_display loads repr text) (\<lambda>shown. Inr ()))"

text \<open>The custom protocol on a message text: the agent to switch to, if any.\<close>

definition main_handoff :: "string \<Rightarrow> py_error + agent option" where
  "main_handoff text =
     (case handoff_target_key text of
        None \<Rightarrow> Inr None
      | Some (Inl e) \<Rightarrow> Inl e
      | Some (Inr target_key) \<Rightarrow> Inr (map_of agent_by_key target_key))"

fun main_items ::
  "(string \<Rightarrow> json option) \<Rightarrow> (json \<Rightarrow> string) \<Rightarrow> string \<Rightarrow> item list \<Rightarrow> main_state
     \<Rightarrow> py_error + main_state" where
  "main_items loads repr conv_id [] st = Inr st"
| "main_items loads repr conv_id (MessageOutputItem text # its) st =
     (if text = [] then main_items loads repr conv_id its st
      else (case main_handoff text of
              Inl e \<Rightarrow> Inl e
            | Inr (Some a) \<Rightarrow>
                Inr (st\<lparr>m_current_agent := a,
                        input_items := input_items st @ [system_entry conv_id]\<rparr>)
            | Inr None \<Rightarrow>
                bnd (show_if_json loads repr text)
                  (\<lambda>u. main_items loads repr conv_id its st)))"
| "main_items loads repr conv_id (HandoffOutputItem source target # its) st =
     main_items loads repr conv_id its
       (st\<lparr>m_current_agent := target,
           input_items := input_items st @ [system_entry conv_id]\<rparr>)"
| "main_items loads repr conv_id (ToolCallItem a # its) st =
     main_items loads repr conv_id its st"
| "main_items loads repr conv_id (ToolCallOutputItem a out # its) st =
     (case out of
        None \<Rightarrow> Inl TypeError
      | Some s \<Rightarrow>
          bnd (show_if_json loads repr s) (\<lambda>u. main_items loads repr conv_id its st))"
| "main_items loads repr conv_id (OtherItem # its) st =
     main_items loads repr conv_id its st"

definition main_turn ::
  "runner \<Rightarrow> (string \<Rightarrow> json option) \<Rightarrow> (json \<Rightarrow> string) \<Rightarrow> string \<Rightarrow> main_state \<Rightarrow> string
     \<Rightarrow> py_error + main_state" where
  "main_turn run loads repr conv_id st msg =
     (let items1 = input_items st @ [InputItem msg ''user''];
          (res, ctx1) = run (m_current_agent st) items1 (m_context st);
          st1 = st\<lparr>input_items := items1, m_context := ctx1\<rparr>
      in case res of
           Inl e \<Rightarrow> Inr st1
         | Inr response \<Rightarrow>
             bnd (main_items loads repr conv_id (new_items response) st1)
               (\<lambda>st2. Inr (st2\<lparr>input_items := to_input_list response\<rparr>)))"

section \<open>Handoff signals of a turn\<close>

text \<open>
  The two kinds of handoff signal an item can carry, named after the specification: a
  recognised text marker (a message whose text, stripped, starts with \<open>HANDOFF:\<close> in
  any case and names a key of \<open>agent_by_key\<close>) and a native handoff event.
\<close>

fun text_marker :: "item \<Rightarrow> agent option" where
  "text_marker (MessageOutputItem text) =
     (case handoff_target_key text of
        Some (Inr target_key) \<Rightarrow> map_of agent_by_key target_key
      | _ \<Rightarrow> None)"
| "text_marker _ = None"

fun handoff_signal :: "item \<Rightarrow> agent option" where
  "handoff_signal (HandoffOutputItem source target) = Some target"
| "handoff_signal it = text_marker it"

text \<open>The target of the last signal in a list of items, or \<open>cur\<close> when there is none.\<close>

definition last_signal :: "agent \<Rightarrow> item list \<Rightarrow> agent" where
  "last_signal cur its =
     fold (\<lambda>it a. case handoff_signal it of None \<Rightarrow> a | Some b \<Rightarrow> b) its cur"

text \<open>The target of the first recognised text marker in a list of items.\<close>

fun first_marker :: "item list \<Rightarrow> agent option" where
  "first_marker [] = None"
| "first_marker (it # its) =
     (case text_marker it of Some a \<Rightarrow> Some a | None \<Rightarrow> first_marker its)"

section \<open>Example runtimes\<close>

text \<open>
  Two instances of \<open>Runner.run\<close> for evaluating turns on concrete inputs: one whose
  run produces the given items, with \<open>to_input_list()\<close> the input followed by the new
  items, and one whose run raises. Both leave the context as it is.
\<close>

definition returning :: "item list \<Rightarrow> runner" where
  "returning its a transcript ctx =
     (Inr \<lparr>new_items = its, to_input_list = transcript @ map RunInput its\<rparr>, ctx)"

definition raising :: "py_error \<Rightarrow> runner" where
  "raising e a transcript ctx = (Inl e, ctx)"

text \<open>A \<open>json.loads\<close> for inputs none of which is JSON, and a \<open>repr\<close> that is never called.\<close>

definition not_json :: "string \<Rightarrow> json option" where
  "not_json s = None"

definition no_repr :: "json \<Rightarrow> string" where
  "no_repr v = []"

text \<open>
  A run in which a tool stores a destination in the context (as \<open>update_context_tool\<close>
  does) and the runtime raises afterwards.
\<close>

definition update_then_raise :: "string \<Rightarrow> py_error \<Rightarrow> runner" where
  "update_then_raise dest e a transcript ctx = (Inl e, ctx\<lparr>destination := Some dest\<rparr>)"

section \<open>Dates (\<open>datetime.strptime\<close>, \<open>timedelta\<close>, \<open>strftime\<close>)\<close>

text \<open>
  A date of the proleptic Gregorian calendar, as year, month and day, with the ordinal
  arithmetic of Python's \<open>datetime\<close> module (\<open>_ymd2ord\<close>, \<open>_ord2ymd\<close>): day 1 is
  0001-01-01 and the last day, 9999-12-31, is \<open>MAXORDINAL\<close>.
\<close>

datatype date = Date nat nat nat

definition is_leap :: "nat \<Rightarrow> bool" where
  "is_leap y = (y mod 4 = 0 \<and> (y mod 100 \<noteq> 0 \<or> y mod 400 = 0))"

definition DAYS_IN_MONTH :: "nat list" where
  "DAYS_IN_MONTH = [31, 28, 31, 30, 31, 30, 31, 31, 30, 31, 30, 31]"

definition DAYS_BEFORE_MONTH :: "nat list" where
  "DAYS_BEFORE_MONTH = [0, 31, 59, 90, 120, 151, 181, 212, 243, 273, 304, 334]"

definition days_in_month :: "nat \<Rightarrow> nat \<Rightarrow> nat" where
  "days_in_month y m = (if m = 2 \<and> is_leap y then 29 else DAYS_IN_MONTH ! (m - 1))"

definition days_before_year :: "nat \<Rightarrow> nat" where
  "days_before_year y = (y - 1) * 365 + (y - 1) div 4 - (y - 1) div 100 + (y - 1) div 400"

definition days_before_month :: "nat \<Rightarrow> nat \<Rightarrow> nat" where
  "days_before_month y m = DAYS_BEFORE_MONTH ! (m - 1) + (if 2 < m \<and> is_leap y then 1 else 0)"

fun toordinal :: "date \<Rightarrow> nat" where
  "toordinal (Date y m d) = days_before_year y + days_before_month y m + d"

definition MAXORDINAL :: nat where
  "MAXORDINAL = 3652059"

definition fromordinal :: "nat \<Rightarrow> date" where
  "fromordinal n0 =
     (let n = n0 - 1;
          n400 = n div 146097; n = n mod 146097;
          n100 = n div 36524; n = n mod 36524;
          n4 = n div 1461; n = n mod 1461;
          n1 = n div 365; n = n mod 365;
          y = n400 * 400 + 1 + n100 * 100 + n4 * 4 + n1
      in if n1 = 4 \<or> n100 = 4 then Date (y - 1) 12 31
         else (let leapyear = (n1 = 3 \<and> (n4 \<noteq> 24 \<or> n100 = 3));
                   m = (n + 50) div 32;
                   preceding = DAYS_BEFORE_MONTH ! (m - 1) + (if 2 < m \<and> leapyear then 1 else 0)
               in if n < preceding
                  then (let m' = m - 1;
                            preceding' = preceding
                              - (DAYS_IN_MONTH ! (m' - 1) + (if m' = 2 \<and> leapyear then 1 else 0))
                        in Date y m' (n - preceding' + 1))
                  else Date y m (n - preceding + 1)))"

text \<open>
  \<open>datetime.strptime(s, "%Y-%m-%d")\<close>, after the regular expressions of
  \<open>_strptime\<close>: four digits, a hyphen, a month written \<open>1[0-2]|0[1-9]|[1-9]\<close>, a hyphen
  and a day written \<open>3[01]|[12]\d|0[1-9]|[1-9]| [1-9]\<close>, the whole string consumed; then the
  date has to exist (year at least 1). \<open>None\<close> is the \<open>ValueError\<close>.
\<close>

definition isdigit :: "char \<Rightarrow> bool" where
  "isdigit c = (digit_val c \<noteq> None)"

definition digits_nat :: "string \<Rightarrow> nat" where
  "digits_nat s = fold (\<lambda>c n. 10 * n + (case digit_val c of Some d \<Rightarrow> d | None \<Rightarrow> 0)) s 0"

definition nonzero_digit :: "char \<Rightarrow> bool" where
  "nonzero_digit c = (isdigit c \<and> c \<noteq> CHR ''0'')"

definition month_text :: "string \<Rightarrow> bool" where
  "month_text m =
     (case m of
        [c] \<Rightarrow> nonzero_digit c
      | [a, b] \<Rightarrow> (a = CHR ''1'' \<and> b \<in> set ''012'') \<or> (a = CHR ''0'' \<and> nonzero_digit b)
      | _ \<Rightarrow> False)"

definition day_text :: "string \<Rightarrow> bool" where
  "day_text d =
     (case d of
        [c] \<Rightarrow> nonzero_digit c
      | [a, b] \<Rightarrow> (a = CHR ''3'' \<and> b \<in> set ''01'') \<or> (a \<in> set ''12'' \<and> isdigit b)
                 \<or> (a = CHR ''0'' \<and> nonzero_digit b) \<or> (a = CHR '' '' \<and> nonzero_digit b)
      | _ \<Rightarrow> False)"

definition valid_date :: "nat \<Rightarrow> nat \<Rightarrow> nat \<Rightarrow> bool" where
  "valid_date y m d =
     (1 \<le> y \<and> y \<le> 9999 \<and> 1 \<le> m \<and> m \<le> 12 \<and> 1 \<le> d \<and> d \<le> days_in_month y m)"

definition strptime :: "string \<Rightarrow> date option" where
  "strptime s =
     (let ys = take 4 s; r1 = drop 4 s in
      if length ys = 4 \<and> list_all isdigit ys \<and> r1 \<noteq> [] \<and> hd r1 = CHR ''-''
      then (let r2 = tl r1;
                ms = takeWhile (\<lambda>c. c \<noteq> CHR ''-'') r2;
                r3 = dropWhile (\<lambda>c. c \<noteq> CHR ''-'') r2
            in if month_text ms \<and> r3 \<noteq> [] \<and> day_text (tl r3)
               then (let y = digits_nat ys; m = digits_nat ms;
                         d = digits_nat (dropWhile (\<lambda>c. c = CHR '' '') (tl r3))
                     in if valid_date y m d then Some (Date y m d) else None)
               else None)
      else None)"

text \<open>
  \<open>d + timedelta(days=i)\<close>: \<open>OverflowError\<close> outside the range of dates.
\<close>

definition date_add :: "date \<Rightarrow> int \<Rightarrow> py_error + date" where
  "date_add d i =
     (let ordinal = int (toordinal d) + i in
      if 0 < ordinal \<and> ordinal \<le> int MAXORDINAL then Inr (fromordinal (nat ordinal))
      else Inl OverflowError)"

text \<open>
  \<open>strftime("%Y-%m-%d")\<close>, zero-padded; for years before 1000 the padding of \<open>%Y\<close> is
  the C library's choice, four digits are written here.
\<close>

definition zfill :: "nat \<Rightarrow> string \<Rightarrow> string" where
  "zfill w s = replicate (w - length s) (CHR ''0'') @ s"

fun strftime :: "date \<Rightarrow> string" where
  "strftime (Date y m d) =
     zfill 4 (str_nat y) @ ''-'' @ zfill 2 (str_nat m) @ ''-'' @ zfill 2 (str_nat d)"

section \<open>Creating an itinerary (main.py, \<open>create_itinerary_json_tool\<close>)\<close>

record ItineraryDay =
  d_date :: string
  d_day_number :: int
  d_location :: string
  d_activities :: "string list"
  d_transportation :: string
  d_accommodation :: json
  d_notes :: string

record ItineraryOutput =
  o_destination :: string
  o_description :: string
  o_start_date :: string
  o_end_date :: string
  o_duration_days :: int
  o_itinerary :: "ItineraryDay list"

text \<open>\<open>.dict()\<close> of the two pydantic models: the fields in the order of their declaration.\<close>

definition day_dict :: "ItineraryDay \<Rightarrow> json" where
  "day_dict d =
     JObj [(''date'', JStr (d_date d)),
           (''day_number'', JInt (d_day_number d)),
           (''location'', JStr (d_location d)),
           (''activities'', JArr (map JStr (d_activities d))),
           (''transportation'', JStr (d_transportation d)),
           (''accommodation'', d_accommodation d),
           (''notes'', JStr (d_notes d))]"

definition itinerary_dict :: "ItineraryOutput \<Rightarrow> json" where
  "itinerary_dict out =
     JObj [(''destination'', JStr (o_destination out)),
           (''description'', JStr (o_description out)),
           (''start_date'', JStr (o_start_date out)),
           (''end_date'', JStr (o_end_date out)),
           (''duration_days'', JInt (o_duration_days out)),
           (''itinerary'', JArr (map day_dict (o_itinerary out)))]"

text \<open>\<open>xs[i] if i < len(xs) else default\<close>.\<close>

definition get_or :: "'a list \<Rightarrow> nat \<Rightarrow> 'a \<Rightarrow> 'a" where
  "get_or xs i dflt = (if i < length xs then xs ! i else dflt)"

text \<open>The body of the loop \<open>for i in range(duration_days)\<close>, for one \<open>i\<close>.\<close>

definition make_day ::
  "string \<Rightarrow> date \<Rightarrow> string list list \<Rightarrow> string list \<Rightarrow> string list list \<Rightarrow> string list \<Rightarrow> nat
     \<Rightarrow> py_error + ItineraryDay" where
  "make_day dest start activities_per_day transportation accommodations notes i =
     bnd (date_add start (int i)) (\<lambda>day_date.
       Inr \<lparr>d_date = strftime day_date,
            d_day_number = int i + 1,
            d_location = dest,
            d_activities = get_or activities_per_day i [],
            d_transportation = get_or transportation i ''None'',
            d_accommodation = JArr (map JStr (get_or accommodations i [])),
            d_notes = get_or notes i []\<rparr>)"

fun make_days :: "(nat \<Rightarrow> py_error + ItineraryDay) \<Rightarrow> nat list \<Rightarrow> py_error + ItineraryDay list" where
  "make_days f [] = Inr []"
| "make_days f (i # is) = bnd (f i) (\<lambda>d. bnd (make_days f is) (\<lambda>ds. Inr (d # ds)))"

definition missing_context :: py_error where
  "missing_context = ValueError ''Missing required context: destination, start_date, or end_date''"

definition str_truthy :: "string option \<Rightarrow> bool" where
  "str_truthy s = (case s of Some (c # cs) \<Rightarrow> True | _ \<Rightarrow> False)"

text \<open>
  The document the tool builds from the context and its arguments: everything up to
  \<open>ItineraryOutput(...)\<close>.
\<close>

definition build_itinerary ::
  "TripPlannerContext \<Rightarrow> string list list \<Rightarrow> string list \<Rightarrow> string list list \<Rightarrow> string list
     \<Rightarrow> string \<Rightarrow> py_error + ItineraryOutput" where
  "build_itinerary ctx activities_per_day transportation accommodations notes description =
     (if \<not> (str_truthy (start_date ctx) \<and> str_truthy (end_date ctx)
             \<and> str_truthy (destination ctx))
      then Inl missing_context
      else (case strptime (the (start_date ctx)) of
              None \<Rightarrow> Inl (ValueError ''time data does not match format'')
            | Some start \<Rightarrow>
                (case strptime (the (end_date ctx)) of
                   None \<Rightarrow> Inl (ValueError ''time data does not match format'')
                 | Some end_d \<Rightarrow>
                     (let duration_days = int (toordinal end_d) - int (toordinal start) + 1 in
                      bnd (make_days
                             (make_day (the (destination ctx)) start activities_per_day
                                transportation accommodations notes)
                             [0 ..< nat duration_days])
                        (\<lambda>itinerary_days.
                           Inr \<lparr>o_destination = the (destination ctx),
                                o_description = description,
                                o_start_date = the (start_date ctx),
                                o_end_date = the (end_date ctx),
                                o_duration_days = duration_days,
                                o_itinerary = itinerary_days\<rparr>)))))"

text \<open>
  The tool: the document is serialised with \<open>json.dumps(..., indent=2)\<close> (the parameter
  \<open>dumps\<close>), the conversation id is the argument, else the context's, else a fresh
  \<open>uuid\<close>; it is written into the context, then the text is stored. The result is the
  text or the exception, with the context and the store after the call.
\<close>

definition create_itinerary_json_tool ::
  "(string \<Rightarrow> json option) \<Rightarrow> (string \<Rightarrow> string option) \<Rightarrow> (json \<Rightarrow> string) \<Rightarrow> string
     \<Rightarrow> store \<Rightarrow> TripPlannerContext
     \<Rightarrow> string list list \<Rightarrow> string list \<Rightarrow> string list list \<Rightarrow> string list \<Rightarrow> string
     \<Rightarrow> string option \<Rightarrow> (py_error + string) \<times> TripPlannerContext \<times> store" where
  "create_itinerary_json_tool loads jsonb dumps uuid st ctx activities_per_day transportation
       accommodations notes description conv_arg =
     (case build_itinerary ctx activities_per_day transportation accommodations notes
             description of
        Inl e \<Rightarrow> (Inl e, ctx, st)
      | Inr itinerary_output \<Rightarrow>
          (let itinerary_json = dumps (itinerary_dict itinerary_output);
               conv_id = (if str_truthy conv_arg then the conv_arg
                          else if str_truthy (conversation_id ctx) then the (conversation_id ctx)
                          else uuid);
               ctx' = ctx\<lparr>conversation_id := Some conv_id\<rparr>;
               (res, st') = write_itinerary_json loads jsonb st conv_id itinerary_json
           in (case res of Inl e \<Rightarrow> (Inl e, ctx', st') | Inr t \<Rightarrow> (Inr itinerary_json, ctx', st'))))"

section \<open>Properties of the string functions\<close>

section \<open>Handoff signals\<close>

lemma upper_char_colon: "upper_char c = CHR '':'' \<Longrightarrow> c = CHR '':''"
  by (simp add: upper_char_def ascii_uppercase_def ascii_lowercase_def split: if_splits)

lemma startswith_marker_colon:
  assumes "startswith (upper s) ''HANDOFF:''"
  shows "CHR '':'' \<in> set s"
proof -
  from assms have "take (length ''HANDOFF:'') (map upper_char s) = ''HANDOFF:''"
    by (simp only: startswith_def upper_def)
  moreover have "CHR '':'' \<in> set ''HANDOFF:''"
    by simp
  ultimately have "CHR '':'' \<in> set (take (length ''HANDOFF:'') (map upper_char s))"
    by (simp only:)
  then have "CHR '':'' \<in> set (map upper_char s)"
    by (rule in_set_takeD)
  then obtain c where "c \<in> set s" and "upper_char c = CHR '':''"
    by auto
  then show ?thesis
    using upper_char_colon by blast
qed

lemma after_colon_Some: "CHR '':'' \<in> set s \<Longrightarrow> after_colon s \<noteq> None"
  by (auto simp: after_colon_def dropWhile_eq_Nil_conv split: list.splits)

lemma handoff_target_key_no_error: "handoff_target_key text \<noteq> Some (Inl e)"
  using startswith_marker_colon [of "strip text"] after_colon_Some [of "strip text"]
  by (auto simp: handoff_target_key_def Let_def split: option.splits)

lemma handoff_target_key_empty: "handoff_target_key [] = None"
  by (simp add: handoff_target_key_def strip_def lstrip_def rstrip_def startswith_def upper_def)

lemma handoff_target_key_booking: "handoff_target_key ''HANDOFF: booking'' = Some (Inr ''booking'')"
  by (simp add: handoff_target_key_def strip_def lstrip_def rstrip_def startswith_def upper_def
      lower_def after_colon_def isspace_def upper_char_def lower_char_def ascii_uppercase_def
      ascii_lowercase_def)

lemma handoff_target_key_unknown:
  "handoff_target_key ''HANDOFF: unknown_key'' = Some (Inr ''unknown_key'')"
  by (simp add: handoff_target_key_def strip_def lstrip_def rstrip_def startswith_def upper_def
      lower_def after_colon_def isspace_def upper_char_def lower_char_def ascii_uppercase_def
      ascii_lowercase_def)

lemma chat_item_agent:
  "\<exists>ls'. chat_item loads dumps repr cid it ls = Inr ls' \<and>
     new_current_agent ls' =
       (case handoff_signal it of None \<Rightarrow> new_current_agent ls | Some b \<Rightarrow> b)"
  using handoff_target_key_no_error
  by (cases it) (auto simp: chat_item_def Let_def split: option.splits sum.splits)

lemma chat_items_agent:
  "\<exists>ls'. chat_items loads dumps repr cid its ls = Inr ls' \<and>
     new_current_agent ls' = last_signal (new_current_agent ls) its"
proof (induction its arbitrary: ls)
  case Nil
  show ?case by (simp add: last_signal_def)
next
  case (Cons it its)
  obtain ls1 where 1: "chat_item loads dumps repr cid it ls = Inr ls1"
    and 2: "new_current_agent ls1 =
              (case handoff_signal it of None \<Rightarrow> new_current_agent ls | Some b \<Rightarrow> b)"
    using chat_item_agent by blast
  from Cons.IH [of ls1] 1 2 show ?case
    by (auto simp: bnd_def last_signal_def)
qed

lemma last_signal_append:
  "last_signal cur (xs @ ys) = last_signal (last_signal cur xs) ys"
  by (simp add: last_signal_def)

lemma last_signal_none:
  "list_all (\<lambda>it. handoff_signal it = None) its \<Longrightarrow> last_signal cur its = cur"
  by (induction its arbitrary: cur) (simp_all add: last_signal_def)

lemma last_signal_after:
  "handoff_signal it = Some a \<Longrightarrow> list_all (\<lambda>it. handoff_signal it = None) post \<Longrightarrow>
   last_signal cur (pre @ [it] @ post) = a"
proof -
  assume s: "handoff_signal it = Some a"
    and n: "list_all (\<lambda>it. handoff_signal it = None) post"
  have "last_signal (last_signal cur pre) [it] = a"
    using s by (simp add: last_signal_def)
  moreover have "last_signal cur (pre @ [it] @ post)
      = last_signal (last_signal (last_signal cur pre) [it]) post"
    by (simp only: last_signal_append)
  ultimately show ?thesis
    using n by (simp only: last_signal_none)
qed

lemma main_handoff_marker: "main_handoff t = Inr (text_marker (MessageOutputItem t))"
  using handoff_target_key_no_error [of t]
  by (auto simp: main_handoff_def split: option.splits sum.splits)

lemma text_marker_empty: "text_marker (MessageOutputItem []) = None"
  by (simp add: handoff_target_key_empty)

lemma last_signal_Cons:
  "last_signal cur (it # its) =
     last_signal (case handoff_signal it of None \<Rightarrow> cur | Some b \<Rightarrow> b) its"
  by (simp add: last_signal_def)

lemma handoff_signal_message: "handoff_signal (MessageOutputItem t) = text_marker (MessageOutputItem t)"
  by simp

lemma main_items_agent:
  "main_items loads repr cid its st = Inr st' \<Longrightarrow>
   m_current_agent st' =
     (case first_marker its of Some a \<Rightarrow> a | None \<Rightarrow> last_signal (m_current_agent st) its)"
proof (induction its arbitrary: st)
  case Nil
  then show ?case by (simp add: last_signal_def)
next
  case (Cons it its)
  show ?case
  proof (cases it)
    case (MessageOutputItem t)
    show ?thesis
    proof (cases "text_marker (MessageOutputItem t)")
      case None
      have "main_items loads repr cid its st = Inr st'"
        using Cons.prems MessageOutputItem None
        by (simp add: main_handoff_marker bnd_def split: if_splits sum.splits)
      from Cons.IH [OF this] show ?thesis
        using MessageOutputItem None
        by (simp only: first_marker.simps last_signal_Cons handoff_signal_message option.case)
    next
      case (Some a)
      then have "t \<noteq> []"
        using text_marker_empty by auto
      then have "st' = st\<lparr>m_current_agent := a,
                        input_items := input_items st @ [system_entry cid]\<rparr>"
        using Cons.prems MessageOutputItem Some
        by (simp add: main_handoff_marker)
      then show ?thesis
        using MessageOutputItem Some
        by (simp only: first_marker.simps option.case) simp
    qed
  next
    case (HandoffOutputItem src tgt)
    have "main_items loads repr cid its
            (st\<lparr>m_current_agent := tgt,
                input_items := input_items st @ [system_entry cid]\<rparr>) = Inr st'"
      using Cons.prems HandoffOutputItem by simp
    from Cons.IH [OF this] show ?thesis
      unfolding HandoffOutputItem by (simp add: last_signal_Cons split: option.splits)
  next
    case (ToolCallItem a)
    have "main_items loads repr cid its st = Inr st'"
      using Cons.prems ToolCallItem by simp
    from Cons.IH [OF this] show ?thesis
      unfolding ToolCallItem by (simp add: last_signal_Cons split: option.splits)
  next
    case (ToolCallOutputItem a out)
    have "main_items loads repr cid its st = Inr st'"
      using Cons.prems ToolCallOutputItem
      by (simp add: bnd_def split: option.splits sum.splits)
    from Cons.IH [OF this] show ?thesis
      unfolding ToolCallOutputItem by (simp add: last_signal_Cons split: option.splits)
  next
    case OtherItem
    have "main_items loads repr cid its st = Inr st'"
      using Cons.prems OtherItem by simp
    from Cons.IH [OF this] show ?thesis
      unfolding OtherItem by (simp add: last_signal_Cons split: option.splits)
  qed
qed

lemma chat_session_ok:
  assumes "fst (run (current_agent s) (items s @ [InputItem msg ''user'']) (turn_context s))
             = Inr response"
  shows "current_agent (snd (chat_session run loads dumps repr s msg))
           = last_signal (current_agent s) (new_items response)"
proof -
  obtain ctx1 where r: "run (current_agent s) (items s @ [InputItem msg ''user''])
                          (turn_context s) = (Inr response, ctx1)"
    using assms by (cases "run (current_agent s) (items s @ [InputItem msg ''user''])
                          (turn_context s)") simp
  let ?s1 = "s\<lparr>items := items s @ [InputItem msg ''user''], s_context := ctx1\<rparr>"
  obtain ls' where
    l: "chat_items loads dumps repr (s_conversation_id s) (new_items response)
          \<lparr>bot_response = [], new_current_agent = current_agent ?s1,
           session_items = items ?s1\<rparr> = Inr ls'"
    and a: "new_current_agent ls' = last_signal (current_agent s) (new_items response)"
    using chat_items_agent [of loads dumps repr "s_conversation_id s" "new_items response"
        "\<lparr>bot_response = [], new_current_agent = current_agent ?s1,
          session_items = items ?s1\<rparr>"] by auto
  show ?thesis
    using r l a by (simp add: chat_session_def Let_def)
qed

lemma chat_item_entries:
  "chat_item loads dumps repr cid it ls = Inr ls' \<Longrightarrow>
   session_items ls' =
     session_items ls @ (case text_marker it of None \<Rightarrow> [] | Some a \<Rightarrow> [system_entry cid])"
  by (cases it) (auto simp: chat_item_def Let_def split: option.splits sum.splits)

lemma chat_items_entries:
  "chat_items loads dumps repr cid its ls = Inr ls' \<Longrightarrow>
   list_all (\<lambda>it. text_marker it = None) its \<Longrightarrow> session_items ls' = session_items ls"
proof (induction its arbitrary: ls)
  case Nil
  then show ?case by simp
next
  case (Cons it its)
  obtain ls1 where 1: "chat_item loads dumps repr cid it ls = Inr ls1"
    using chat_item_agent by blast
  then have "session_items ls1 = session_items ls"
    using Cons.prems(2) chat_item_entries [OF 1] by simp
  moreover have "chat_items loads dumps repr cid its ls1 = Inr ls'"
    using Cons.prems(1) 1 by (simp add: bnd_def)
  ultimately show ?case
    using Cons.IH [of ls1] Cons.prems(2) by simp
qed

lemma chat_items_append:
  "chat_items loads dumps repr cid (xs @ ys) ls =
     bnd (chat_items loads dumps repr cid xs ls) (chat_items loads dumps repr cid ys)"
  by (induction xs arbitrary: ls) (auto simp: bnd_def split: sum.splits)

lemma chat_items_one_marker:
  assumes m: "text_marker it = Some a"
    and pre: "list_all (\<lambda>it. text_marker it = None) pre"
    and post: "list_all (\<lambda>it. text_marker it = None) post"
  shows "\<exists>ls'. chat_items loads dumps repr cid (pre @ [it] @ post) ls = Inr ls' \<and>
           session_items ls' = session_items ls @ [system_entry cid]"
proof -
  obtain l1 where 1: "chat_items loads dumps repr cid pre ls = Inr l1"
    using chat_items_agent by blast
  obtain l2 where 2: "chat_item loads dumps repr cid it l1 = Inr l2"
    using chat_item_agent by blast
  obtain l3 where 3: "chat_items loads dumps repr cid post l2 = Inr l3"
    using chat_items_agent by blast
  have "session_items l1 = session_items ls"
    using chat_items_entries [OF 1 pre] .
  moreover have "session_items l2 = session_items l1 @ [system_entry cid]"
    using chat_item_entries [OF 2] m by simp
  moreover have "session_items l3 = session_items l2"
    using chat_items_entries [OF 3 post] .
  moreover have "chat_items loads dumps repr cid (pre @ [it] @ post) ls = Inr l3"
    using 1 2 3 by (simp add: chat_items_append bnd_def)
  ultimately show ?thesis by simp
qed

lemma text_marker_booking: "text_marker (MessageOutputItem ''HANDOFF: booking'') = Some booking_agent"
  by (simp add: handoff_target_key_booking agent_by_key_def)

lemma text_marker_unknown: "text_marker (MessageOutputItem ''HANDOFF: unknown_key'') = None"
  by (simp add: handoff_target_key_unknown agent_by_key_def)

lemma chat_session_failed:
  assumes "fst (run (current_agent s) (items s @ [InputItem msg ''user'']) (turn_context s))
             = Inl e"
  shows "chat_session run loads dumps repr s msg =
           (Inl e, s\<lparr>items := items s @ [InputItem msg ''user''],
                     s_context := snd (run (current_agent s) (items s @ [InputItem msg ''user''])
                                        (turn_context s))\<rparr>)"
  using assms by (simp add: chat_session_def Let_def split_beta)

lemma main_turn_failed:
  assumes "fst (run (m_current_agent st) (input_items st @ [InputItem msg ''user''])
                 (m_context st)) = Inl e"
  shows "main_turn run loads repr cid st msg =
           Inr (st\<lparr>input_items := input_items st @ [InputItem msg ''user''],
                    m_context := snd (run (m_current_agent st)
                                       (input_items st @ [InputItem msg ''user''])
                                       (m_context st))\<rparr>)"
  using assms by (simp add: main_turn_def Let_def split_beta)

section \<open>Precedence of the two handoff mechanisms\<close>

text \<open>
  Claim C1, first as it is stated, at a concrete turn. The itinerary agent hands off
  natively to the summary agent, which then emits the marker \<open>HANDOFF: booking\<close>: the
  list holds a native handoff event and a recognised marker, and after the turn the
  pointer of api.py is the booking agent, not the target of the native event.
\<close>

theorem native_handoff_overridden:
  "current_agent (snd (chat_session
      (returning [HandoffOutputItem itinerary_agent summary_agent,
                  MessageOutputItem ''HANDOFF: booking''])
      not_json no_repr no_repr
      ((new_session ''c1'')\<lparr>current_agent := itinerary_agent\<rparr>) ''go'')) = booking_agent \<and>
   booking_agent \<noteq> summary_agent"
  by (simp add: chat_session_def new_session_def turn_context_def bnd_def chat_item_def
      handoff_target_key_booking agent_by_key_def Let_def returning_def)

text \<open>
  Claim C1 as amended. In api.py the items are processed in list order and every handoff
  signal overwrites the pointer: after the turn the pointer is the target of the last
  signal of the list (the pointer of before when there is none). So the native target is
  the pointer when no signal follows the native event, and a recognised marker's stage is
  the pointer when no signal follows the marker. In main.py a recognised marker also ends
  the processing of the items: the pointer is the stage of the first recognised marker
  when there is one, and the target of the last native event otherwise.
\<close>

theorem last_handoff_signal_wins:
  "(fst (run (current_agent s) (items s @ [InputItem msg ''user'']) (turn_context s))
      = Inr response \<longrightarrow>
    current_agent (snd (chat_session run loads dumps repr s msg))
      = last_signal (current_agent s) (new_items response)) \<and>
   (list_all (\<lambda>it. handoff_signal it = None) post \<longrightarrow>
    last_signal cur (pre @ [HandoffOutputItem src tgt] @ post) = tgt) \<and>
   (text_marker (MessageOutputItem t) = Some a \<and>
    list_all (\<lambda>it. handoff_signal it = None) post \<longrightarrow>
    last_signal cur (pre @ [MessageOutputItem t] @ post) = a) \<and>
   (main_items loads repr cid its st = Inr st' \<longrightarrow>
    m_current_agent st' =
      (case first_marker its of
         Some a \<Rightarrow> a
       | None \<Rightarrow> last_signal (m_current_agent st) its))"
  using chat_session_ok [of run s msg response loads dumps repr]
    last_signal_after [of "HandoffOutputItem src tgt" tgt post cur pre]
    last_signal_after [of "MessageOutputItem t" a post cur pre]
    main_items_agent [of loads repr cid its st st']
  by simp

theorem last_handoff_signal_wins_witness:
  "current_agent (snd (chat_session
      (returning [MessageOutputItem ''HANDOFF: booking'',
                  HandoffOutputItem itinerary_agent summary_agent])
      not_json no_repr no_repr
      ((new_session ''c1'')\<lparr>current_agent := itinerary_agent\<rparr>) ''go'')) = summary_agent \<and>
   last_signal itinerary_agent
     ([MessageOutputItem ''HANDOFF: booking'']
      @ [HandoffOutputItem itinerary_agent summary_agent] @ [ToolCallItem summary_agent])
     = summary_agent \<and>
   last_signal itinerary_agent
     ([HandoffOutputItem itinerary_agent summary_agent]
      @ [MessageOutputItem ''HANDOFF: booking''] @ [ToolCallItem booking_agent])
     = booking_agent \<and>
   m_current_agent
     (\<lparr>m_current_agent = booking_agent,
       input_items = [system_entry ''c1'', system_entry ''c1''],
       m_context = s_context (new_session ''c1'')\<rparr>) = booking_agent"
proof -
  let ?s = "(new_session ''c1'')\<lparr>current_agent := itinerary_agent\<rparr>"
  let ?M = "MessageOutputItem ''HANDOFF: booking''"
  let ?H = "HandoffOutputItem itinerary_agent summary_agent"
  let ?run = "returning [?M, ?H]"
  let ?resp = "\<lparr>new_items = [?M, ?H],
                to_input_list = (items ?s @ [InputItem ''go'' ''user'']) @ map RunInput [?M, ?H]\<rparr>"
  let ?st = "\<lparr>m_current_agent = itinerary_agent, input_items = [],
              m_context = s_context (new_session ''c1'')\<rparr>"
  let ?st' = "\<lparr>m_current_agent = booking_agent,
               input_items = [system_entry ''c1'', system_entry ''c1''],
               m_context = s_context (new_session ''c1'')\<rparr>"
  have r: "fst (?run (current_agent ?s) (items ?s @ [InputItem ''go'' ''user''])
                 (turn_context ?s)) = Inr ?resp"
    by (simp add: returning_def)
  have n1: "list_all (\<lambda>it. handoff_signal it = None) [ToolCallItem summary_agent]"
    by simp
  have n2: "list_all (\<lambda>it. handoff_signal it = None) [ToolCallItem booking_agent]"
    by simp
  have m: "text_marker ?M = Some booking_agent"
    by (rule text_marker_booking)
  have mi: "main_items not_json no_repr ''c1'' [?H, ?M] ?st = Inr ?st'"
    by (simp add: main_handoff_def handoff_target_key_booking agent_by_key_def)
  have fm: "first_marker [?H, ?M] = Some booking_agent"
    by (simp add: handoff_target_key_booking agent_by_key_def)
  have ls: "last_signal itinerary_agent [?M, ?H] = summary_agent"
    by (simp add: last_signal_def handoff_target_key_booking agent_by_key_def)
  show ?thesis
    using last_handoff_signal_wins [of ?run ?s "''go''" ?resp not_json no_repr no_repr
        "[ToolCallItem summary_agent]" itinerary_agent "[?M]" itinerary_agent summary_agent
        "''HANDOFF: booking''" booking_agent "''c1''" "[?H, ?M]" ?st ?st']
      last_handoff_signal_wins [of ?run ?s "''go''" ?resp not_json no_repr no_repr
        "[ToolCallItem booking_agent]" itinerary_agent "[?H]" itinerary_agent summary_agent
        "''HANDOFF: booking''" booking_agent "''c1''" "[?H, ?M]" ?st ?st']
      r n1 n2 m mi fm ls
    by simp
qed

lemma chat_session_items:
  assumes "fst (run (current_agent s) (items s @ [InputItem msg ''user'']) (turn_context s))
             = Inr response"
  shows "items (snd (chat_session run loads dumps repr s msg)) = to_input_list response"
proof -
  obtain ctx1 where r: "run (current_agent s) (items s @ [InputItem msg ''user''])
                          (turn_context s) = (Inr response, ctx1)"
    using assms by (cases "run (current_agent s) (items s @ [InputItem msg ''user''])
                          (turn_context s)") simp
  let ?s1 = "s\<lparr>items := items s @ [InputItem msg ''user''], s_context := ctx1\<rparr>"
  obtain ls' where
    l: "chat_items loads dumps repr (s_conversation_id s) (new_items response)
          \<lparr>bot_response = [], new_current_agent = current_agent ?s1,
           session_items = items ?s1\<rparr> = Inr ls'"
    using chat_items_agent [of loads dumps repr "s_conversation_id s" "new_items response"
        "\<lparr>bot_response = [], new_current_agent = current_agent ?s1,
          session_items = items ?s1\<rparr>"] by auto
  show ?thesis
    using r l by (simp add: chat_session_def Let_def)
qed

lemma main_turn_ok:
  assumes "fst (run (m_current_agent st) (input_items st @ [InputItem msg ''user''])
                 (m_context st)) = Inr response"
  shows "main_turn run loads repr cid st msg =
           bnd (main_items loads repr cid (new_items response)
                  (st\<lparr>input_items := input_items st @ [InputItem msg ''user''],
                      m_context := snd (run (m_current_agent st)
                                         (input_items st @ [InputItem msg ''user''])
                                         (m_context st))\<rparr>))
               (\<lambda>st2. Inr (st2\<lparr>input_items := to_input_list response\<rparr>))"
  using assms by (simp add: main_turn_def Let_def split_beta)

lemma main_turn_agent:
  assumes r: "fst (run (m_current_agent st) (input_items st @ [InputItem msg ''user''])
                    (m_context st)) = Inr response"
    and t: "main_turn run loads repr cid st msg = Inr st'"
  shows "m_current_agent st' =
           (case first_marker (new_items response) of
              Some a \<Rightarrow> a
            | None \<Rightarrow> last_signal (m_current_agent st) (new_items response))"
proof -
  let ?st1 = "st\<lparr>input_items := input_items st @ [InputItem msg ''user''],
                  m_context := snd (run (m_current_agent st)
                                     (input_items st @ [InputItem msg ''user''])
                                     (m_context st))\<rparr>"
  obtain st2 where 1: "main_items loads repr cid (new_items response) ?st1 = Inr st2"
    and 2: "st' = st2\<lparr>input_items := to_input_list response\<rparr>"
    using t r main_turn_ok [of run st msg response loads repr cid]
    by (auto simp: bnd_def split: sum.splits)
  show ?thesis
    using main_items_agent [OF 1] 2 by (simp split: option.splits)
qed

lemma first_marker_append:
  "first_marker (xs @ ys) =
     (case first_marker xs of Some a \<Rightarrow> Some a | None \<Rightarrow> first_marker ys)"
  by (induction xs) (simp_all split: option.splits)

lemma last_signal_skip:
  assumes "handoff_signal it = None"
  shows "last_signal cur (pre @ [it] @ post) = last_signal cur (pre @ post)"
proof -
  have "last_signal (last_signal cur pre) [it] = last_signal cur pre"
    using assms by (simp add: last_signal_def)
  then show ?thesis
    by (simp only: last_signal_append)
qed

lemma first_marker_skip:
  assumes "text_marker it = None"
  shows "first_marker (pre @ [it] @ post) = first_marker (pre @ post)"
  using assms by (simp add: first_marker_append split: option.splits)

lemma signal_free_marker_free:
  "list_all (\<lambda>it. handoff_signal it = None) xs \<Longrightarrow> list_all (\<lambda>it. text_marker it = None) xs"
proof (induction xs)
  case Nil
  show ?case by simp
next
  case (Cons x xs)
  then show ?case by (cases x) simp_all
qed

lemma first_marker_none:
  "list_all (\<lambda>it. text_marker it = None) xs \<Longrightarrow> first_marker xs = None"
  by (induction xs) simp_all

lemma turn_context_cases:
  "turn_context s =
     (if str_truthy (conversation_id (s_context s)) then s_context s
      else (s_context s)\<lparr>conversation_id := Some (s_conversation_id s)\<rparr>)"
  by (simp add: turn_context_def str_truthy_def split: option.splits list.splits)

section \<open>The text protocol\<close>

text \<open>
  Claim C2, first as it is stated, at a concrete turn of api.py. The itinerary agent emits
  the message \<open>HANDOFF: booking\<close> and then hands off natively to the summary agent.
  After the turn the active agent is the summary agent, not the booking agent, and the
  transcript that the session keeps holds no entry \<open>Conversation ID: c1\<close>.
\<close>

theorem booking_marker_then_native:
  "current_agent (snd (chat_session
      (returning [MessageOutputItem ''HANDOFF: booking'',
                  HandoffOutputItem itinerary_agent summary_agent])
      not_json no_repr no_repr
      ((new_session ''c1'')\<lparr>current_agent := itinerary_agent\<rparr>) ''go'')) = summary_agent \<and>
   summary_agent \<noteq> booking_agent \<and>
   items (snd (chat_session
      (returning [MessageOutputItem ''HANDOFF: booking'',
                  HandoffOutputItem itinerary_agent summary_agent])
      not_json no_repr no_repr
      ((new_session ''c1'')\<lparr>current_agent := itinerary_agent\<rparr>) ''go''))
     = [InputItem ''go'' ''user'',
        RunInput (MessageOutputItem ''HANDOFF: booking''),
        RunInput (HandoffOutputItem itinerary_agent summary_agent)]"
  by (simp add: chat_session_def new_session_def turn_context_def bnd_def chat_item_def
      handoff_target_key_booking agent_by_key_def Let_def returning_def)

text \<open>
  Claim C2 as amended. A message whose text is exactly \<open>HANDOFF: booking\<close> is a
  handoff signal to the booking agent: after a turn of api.py that holds it the active
  agent is the booking agent when no handoff signal follows the message in the list of
  items, and after a turn of main.py that holds it (and returns) the active agent is the
  booking agent when no recognised marker precedes it; a turn of main.py whose first item
  is the message returns, with the booking agent active. A message whose text is
  \<open>HANDOFF: unknown_key\<close> is no signal: after the turn the active agent is the one
  that the other items determine, the agent of before when none of them is a signal, and
  processing the message appends no entry to the transcript.
\<close>

theorem text_marker_turn:
  "(fst (run (current_agent s) (items s @ [InputItem msg ''user'']) (turn_context s))
      = Inr response \<and>
    new_items response = pre @ [MessageOutputItem ''HANDOFF: booking''] @ post \<and>
    list_all (\<lambda>it. handoff_signal it = None) post \<longrightarrow>
    current_agent (snd (chat_session run loads dumps repr s msg)) = booking_agent) \<and>
   (fst (run (current_agent s) (items s @ [InputItem msg ''user'']) (turn_context s))
      = Inr response \<and>
    new_items response = pre @ [MessageOutputItem ''HANDOFF: unknown_key''] @ post \<longrightarrow>
    current_agent (snd (chat_session run loads dumps repr s msg))
      = last_signal (current_agent s) (pre @ post) \<and>
    (list_all (\<lambda>it. handoff_signal it = None) (pre @ post) \<longrightarrow>
     current_agent (snd (chat_session run loads dumps repr s msg)) = current_agent s)) \<and>
   (list_all (\<lambda>it. text_marker it = None) (pre @ post) \<longrightarrow>
    (\<exists>ls'. chat_items loads dumps repr cid
              (pre @ [MessageOutputItem ''HANDOFF: unknown_key''] @ post) ls = Inr ls' \<and>
           session_items ls' = session_items ls)) \<and>
   (fst (run (m_current_agent st) (input_items st @ [InputItem msg ''user'']) (m_context st))
      = Inr response \<and>
    new_items response = pre @ [MessageOutputItem ''HANDOFF: booking''] @ post \<and>
    first_marker pre = None \<and>
    main_turn run loads repr cid st msg = Inr st' \<longrightarrow>
    m_current_agent st' = booking_agent) \<and>
   (fst (run (m_current_agent st) (input_items st @ [InputItem msg ''user'']) (m_context st))
      = Inr response \<and>
    new_items response = MessageOutputItem ''HANDOFF: booking'' # post \<longrightarrow>
    main_turn run loads repr cid st msg =
      Inr (st\<lparr>m_current_agent := booking_agent,
              input_items := to_input_list response,
              m_context := snd (run (m_current_agent st)
                                 (input_items st @ [InputItem msg ''user''])
                                 (m_context st))\<rparr>)) \<and>
   (fst (run (m_current_agent st) (input_items st @ [InputItem msg ''user'']) (m_context st))
      = Inr response \<and>
    new_items response = pre @ [MessageOutputItem ''HANDOFF: unknown_key''] @ post \<and>
    main_turn run loads repr cid st msg = Inr st' \<longrightarrow>
    m_current_agent st' =
      (case first_marker (pre @ post) of
         Some a \<Rightarrow> a
       | None \<Rightarrow> last_signal (m_current_agent st) (pre @ post))) \<and>
   (fst (run (m_current_agent st) (input_items st @ [InputItem msg ''user'']) (m_context st))
      = Inr response \<and>
    new_items response = [MessageOutputItem ''HANDOFF: unknown_key''] \<and>
    loads ''HANDOFF: unknown_key'' = None \<longrightarrow>
    main_turn run loads repr cid st msg =
      Inr (st\<lparr>input_items := to_input_list response,
              m_context := snd (run (m_current_agent st)
                                 (input_items st @ [InputItem msg ''user''])
                                 (m_context st))\<rparr>))"
proof -
  let ?B = "MessageOutputItem ''HANDOFF: booking''"
  let ?U = "MessageOutputItem ''HANDOFF: unknown_key''"
  let ?r = "run (current_agent s) (items s @ [InputItem msg ''user'']) (turn_context s)"
  let ?rm = "run (m_current_agent st) (input_items st @ [InputItem msg ''user''])
               (m_context st)"
  have sigB: "handoff_signal ?B = Some booking_agent"
    using text_marker_booking by simp
  have sigU: "handoff_signal ?U = None"
    using text_marker_unknown by simp
  have a: "current_agent (snd (chat_session run loads dumps repr s msg)) = booking_agent"
    if r: "fst ?r = Inr response" and n: "new_items response = pre @ [?B] @ post"
      and post: "list_all (\<lambda>it. handoff_signal it = None) post"
    using chat_session_ok [of run s msg response loads dumps repr] r n
      last_signal_after [OF sigB post] by simp
  have b: "current_agent (snd (chat_session run loads dumps repr s msg))
             = last_signal (current_agent s) (pre @ post)"
    if r: "fst ?r = Inr response" and n: "new_items response = pre @ [?U] @ post"
    using chat_session_ok [of run s msg response loads dumps repr] r n
      last_signal_skip [OF sigU] by simp
  have b': "current_agent (snd (chat_session run loads dumps repr s msg)) = current_agent s"
    if r: "fst ?r = Inr response" and n: "new_items response = pre @ [?U] @ post"
      and none: "list_all (\<lambda>it. handoff_signal it = None) (pre @ post)"
    using b [OF r n] last_signal_none [OF none] by simp
  have c: "\<exists>ls'. chat_items loads dumps repr cid (pre @ [?U] @ post) ls = Inr ls' \<and>
             session_items ls' = session_items ls"
    if none: "list_all (\<lambda>it. text_marker it = None) (pre @ post)"
  proof -
    have all: "list_all (\<lambda>it. text_marker it = None) (pre @ [?U] @ post)"
      using none text_marker_unknown by simp
    obtain ls' where 1: "chat_items loads dumps repr cid (pre @ [?U] @ post) ls = Inr ls'"
      using chat_items_agent by blast
    show ?thesis
      using 1 chat_items_entries [OF 1 all] by simp
  qed
  have d: "m_current_agent st' = booking_agent"
    if r: "fst ?rm = Inr response" and n: "new_items response = pre @ [?B] @ post"
      and pre: "first_marker pre = None"
      and t: "main_turn run loads repr cid st msg = Inr st'"
  proof -
    have "first_marker (pre @ [?B] @ post) = Some booking_agent"
      using pre text_marker_booking by (simp add: first_marker_append)
    then show ?thesis
      using main_turn_agent [of run st msg response loads repr cid st'] r t n by simp
  qed
  have e: "main_turn run loads repr cid st msg =
      Inr (st\<lparr>m_current_agent := booking_agent, input_items := to_input_list response,
              m_context := snd ?rm\<rparr>)"
    if r: "fst ?rm = Inr response" and n: "new_items response = ?B # post"
    using main_turn_ok [of run st msg response loads repr cid] r n
    by (simp add: main_handoff_def handoff_target_key_booking agent_by_key_def bnd_def)
  have f: "m_current_agent st' =
      (case first_marker (pre @ post) of
         Some a \<Rightarrow> a
       | None \<Rightarrow> last_signal (m_current_agent st) (pre @ post))"
    if r: "fst ?rm = Inr response" and n: "new_items response = pre @ [?U] @ post"
      and t: "main_turn run loads repr cid st msg = Inr st'"
    using main_turn_agent [of run st msg response loads repr cid st'] r t n
      first_marker_skip [OF text_marker_unknown] last_signal_skip [OF sigU]
    by (simp split: option.splits)
  have g: "main_turn run loads repr cid st msg =
      Inr (st\<lparr>input_items := to_input_list response, m_context := snd ?rm\<rparr>)"
    if r: "fst ?rm = Inr response" and n: "new_items response = [?U]"
      and l: "loads ''HANDOFF: unknown_key'' = None"
    using main_turn_ok [of run st msg response loads repr cid] r n l
    by (simp add: main_handoff_def handoff_target_key_unknown agent_by_key_def bnd_def
        show_if_json_def)
  from a b b' c d e f g show ?thesis
    by blast
qed

theorem text_marker_turn_witness:
  "current_agent (snd (chat_session
      (returning [ToolCallItem summary_agent, MessageOutputItem ''HANDOFF: booking'',
                  ToolCallItem summary_agent])
      not_json no_repr no_repr
      ((new_session ''c1'')\<lparr>current_agent := summary_agent\<rparr>) ''go'')) = booking_agent \<and>
   current_agent (snd (chat_session
      (returning [MessageOutputItem ''HANDOFF: unknown_key''])
      not_json no_repr no_repr
      ((new_session ''c1'')\<lparr>current_agent := summary_agent\<rparr>) ''go'')) = summary_agent \<and>
   (\<exists>ls'. chat_items not_json no_repr no_repr ''c1''
            [MessageOutputItem ''HANDOFF: unknown_key'']
            \<lparr>bot_response = [], new_current_agent = summary_agent, session_items = []\<rparr>
            = Inr ls' \<and> session_items ls' = []) \<and>
   main_turn
      (returning [ToolCallItem summary_agent, MessageOutputItem ''HANDOFF: booking'',
                  ToolCallItem summary_agent])
      not_json no_repr ''c1''
      \<lparr>m_current_agent = summary_agent, input_items = [],
       m_context = s_context (new_session ''c1'')\<rparr> ''go''
     = Inr \<lparr>m_current_agent = booking_agent,
            input_items = [InputItem ''go'' ''user'', RunInput (ToolCallItem summary_agent),
                           RunInput (MessageOutputItem ''HANDOFF: booking''),
                           RunInput (ToolCallItem summary_agent)],
            m_context = s_context (new_session ''c1'')\<rparr> \<and>
   main_turn
      (returning [MessageOutputItem ''HANDOFF: booking'',
                  HandoffOutputItem summary_agent itinerary_agent])
      not_json no_repr ''c1''
      \<lparr>m_current_agent = summary_agent, input_items = [],
       m_context = s_context (new_session ''c1'')\<rparr> ''go''
     = Inr \<lparr>m_current_agent = booking_agent,
            input_items = [InputItem ''go'' ''user'',
                           RunInput (MessageOutputItem ''HANDOFF: booking''),
                           RunInput (HandoffOutputItem summary_agent itinerary_agent)],
            m_context = s_context (new_session ''c1'')\<rparr> \<and>
   main_turn (returning [MessageOutputItem ''HANDOFF: unknown_key''])
      not_json no_repr ''c1''
      \<lparr>m_current_agent = summary_agent, input_items = [],
       m_context = s_context (new_session ''c1'')\<rparr> ''go''
     = Inr \<lparr>m_current_agent = summary_agent,
            input_items = [InputItem ''go'' ''user'',
                           RunInput (MessageOutputItem ''HANDOFF: unknown_key'')],
            m_context = s_context (new_session ''c1'')\<rparr>"
proof -
  let ?T = "ToolCallItem summary_agent"
  let ?B = "MessageOutputItem ''HANDOFF: booking''"
  let ?U = "MessageOutputItem ''HANDOFF: unknown_key''"
  let ?H = "HandoffOutputItem summary_agent itinerary_agent"
  let ?s = "(new_session ''c1'')\<lparr>current_agent := summary_agent\<rparr>"
  let ?st = "\<lparr>m_current_agent = summary_agent, input_items = [],
              m_context = s_context (new_session ''c1'')\<rparr>"
  let ?ls = "\<lparr>bot_response = [], new_current_agent = summary_agent, session_items = []\<rparr>"
  let ?resp = "\<lambda>its. \<lparr>new_items = its,
                        to_input_list = [InputItem ''go'' ''user''] @ map RunInput its\<rparr>"
  let ?stA = "\<lparr>m_current_agent = booking_agent,
               input_items = [InputItem ''go'' ''user'', RunInput ?T, RunInput ?B, RunInput ?T],
               m_context = s_context (new_session ''c1'')\<rparr>"
  have ra: "fst (returning its (current_agent ?s) (items ?s @ [InputItem ''go'' ''user''])
                  (turn_context ?s)) = Inr (?resp its)" for its
    by (simp add: returning_def new_session_def)
  have rm: "fst (returning its (m_current_agent ?st)
                  (input_items ?st @ [InputItem ''go'' ''user'']) (m_context ?st))
              = Inr (?resp its)" for its
    by (simp add: returning_def)
  have cm: "snd (returning its (m_current_agent ?st)
                  (input_items ?st @ [InputItem ''go'' ''user'']) (m_context ?st))
              = s_context (new_session ''c1'')" for its
    by (simp add: returning_def)
  have nT: "list_all (\<lambda>it. handoff_signal it = None) [?T] \<and> first_marker [?T] = None \<and>
            list_all (\<lambda>it. handoff_signal it = None) ([] @ []) \<and>
            list_all (\<lambda>it. text_marker it = None) ([] @ [])"
    by simp
  have nj: "not_json ''HANDOFF: unknown_key'' = None"
    by (simp add: not_json_def)
  have mA: "main_turn (returning [?T, ?B, ?T]) not_json no_repr ''c1'' ?st ''go'' = Inr ?stA"
    by (simp add: main_turn_def returning_def main_handoff_def handoff_target_key_booking
        agent_by_key_def bnd_def Let_def)
  have A: "current_agent (snd (chat_session (returning [?T, ?B, ?T]) not_json no_repr no_repr
             ?s ''go'')) = booking_agent \<and> m_current_agent ?stA = booking_agent"
    using text_marker_turn [where run = "returning [?T, ?B, ?T]" and s = ?s and msg = "''go''"
        and response = "?resp [?T, ?B, ?T]" and pre = "[?T]" and post = "[?T]"
        and loads = not_json and dumps = no_repr and repr = no_repr and cid = "''c1''"
        and ls = ?ls and st = ?st and st' = ?stA]
      ra [of "[?T, ?B, ?T]"] rm [of "[?T, ?B, ?T]"] nT mA
    by simp
  have B: "main_turn (returning [?B, ?H]) not_json no_repr ''c1'' ?st ''go''
             = Inr (?st\<lparr>m_current_agent := booking_agent,
                        input_items := [InputItem ''go'' ''user''] @ map RunInput [?B, ?H],
                        m_context := s_context (new_session ''c1'')\<rparr>)"
    using text_marker_turn [where run = "returning [?B, ?H]" and s = ?s and msg = "''go''"
        and response = "?resp [?B, ?H]" and pre = "[]" and post = "[?H]"
        and loads = not_json and dumps = no_repr and repr = no_repr and cid = "''c1''"
        and ls = ?ls and st = ?st and st' = ?stA]
      rm [of "[?B, ?H]"] cm [of "[?B, ?H]"]
    by simp
  have U: "current_agent (snd (chat_session (returning [?U]) not_json no_repr no_repr
             ?s ''go'')) = current_agent ?s \<and>
           (\<exists>ls'. chat_items not_json no_repr no_repr ''c1'' ([] @ [?U] @ []) ?ls = Inr ls' \<and>
                  session_items ls' = session_items ?ls) \<and>
           main_turn (returning [?U]) not_json no_repr ''c1'' ?st ''go''
             = Inr (?st\<lparr>input_items := [InputItem ''go'' ''user''] @ map RunInput [?U],
                        m_context := s_context (new_session ''c1'')\<rparr>)"
    using text_marker_turn [where run = "returning [?U]" and s = ?s and msg = "''go''"
        and response = "?resp [?U]" and pre = "[]" and post = "[]"
        and loads = not_json and dumps = no_repr and repr = no_repr and cid = "''c1''"
        and ls = ?ls and st = ?st and st' = ?stA]
      ra [of "[?U]"] rm [of "[?U]"] cm [of "[?U]"] nT nj
    by (simp add: last_signal_def)
  from A B U mA show ?thesis
    by simp
qed

section \<open>A turn whose agent invocation fails\<close>

text \<open>
  Claim C3, first as it is stated, at a concrete turn of api.py. The session has a
  transcript of two entries and a context with a conversation id; during the run a tool
  stores the destination in the context, then the runtime raises. After the failed turn
  the transcript has the user's message as a third entry and the context holds the
  destination: neither is equal to its value before the turn.
\<close>

theorem failed_turn_changes_state:
  "fst (chat_session (update_then_raise ''Paris'' (AgentError ''boom''))
          not_json no_repr no_repr
          ((new_session ''c1'')\<lparr>items := [InputItem ''hi'' ''user'',
                                          RunInput (MessageOutputItem ''Where to?'')]\<rparr>)
          ''Paris please'') = Inl (AgentError ''boom'') \<and>
   items (snd (chat_session (update_then_raise ''Paris'' (AgentError ''boom''))
          not_json no_repr no_repr
          ((new_session ''c1'')\<lparr>items := [InputItem ''hi'' ''user'',
                                          RunInput (MessageOutputItem ''Where to?'')]\<rparr>)
          ''Paris please''))
     = [InputItem ''hi'' ''user'', RunInput (MessageOutputItem ''Where to?''),
        InputItem ''Paris please'' ''user''] \<and>
   destination (s_context (snd (chat_session (update_then_raise ''Paris'' (AgentError ''boom''))
          not_json no_repr no_repr
          ((new_session ''c1'')\<lparr>items := [InputItem ''hi'' ''user'',
                                          RunInput (MessageOutputItem ''Where to?'')]\<rparr>)
          ''Paris please''))) = Some ''Paris'' \<and>
   destination (s_context (new_session ''c1'')) = None"
  by (simp add: chat_session_def update_then_raise_def new_session_def turn_context_def Let_def)

text \<open>
  Claim C3 as amended. When \<open>Runner.run\<close> raises, the active-agent pointer after the
  failed turn is the one of before, and the transcript is the transcript of before with
  the user's message appended (the message is appended before the call and stays). The
  context after the failed turn is the context that was handed to the runtime, as the
  runtime left it when it raised; what api.py hands over is the context of before, with
  the session's conversation id filled in when the context had none, and what main.py
  hands over is the context of before. So the context is equal to its value before the
  turn when it had a conversation id and the runtime made no change to it. In api.py the
  exception leaves \<open>chat\<close>; in main.py it is caught and the loop goes on.
\<close>

theorem failed_turn_state:
  "(fst (run (current_agent s) (items s @ [InputItem msg ''user'']) (turn_context s)) = Inl e
      \<longrightarrow>
    fst (chat_session run loads dumps repr s msg) = Inl e \<and>
    current_agent (snd (chat_session run loads dumps repr s msg)) = current_agent s \<and>
    s_conversation_id (snd (chat_session run loads dumps repr s msg)) = s_conversation_id s \<and>
    items (snd (chat_session run loads dumps repr s msg)) = items s @ [InputItem msg ''user''] \<and>
    s_context (snd (chat_session run loads dumps repr s msg))
      = snd (run (current_agent s) (items s @ [InputItem msg ''user'']) (turn_context s))) \<and>
   (str_truthy (conversation_id (s_context s)) \<longrightarrow> turn_context s = s_context s) \<and>
   (\<not> str_truthy (conversation_id (s_context s)) \<longrightarrow>
    turn_context s = (s_context s)\<lparr>conversation_id := Some (s_conversation_id s)\<rparr>) \<and>
   (run (current_agent s) (items s @ [InputItem msg ''user'']) (s_context s)
      = (Inl e, s_context s) \<and>
    str_truthy (conversation_id (s_context s)) \<longrightarrow>
    s_context (snd (chat_session run loads dumps repr s msg)) = s_context s) \<and>
   (fst (run (m_current_agent st) (input_items st @ [InputItem msg ''user'']) (m_context st))
      = Inl e \<longrightarrow>
    main_turn run loads repr cid st msg =
      Inr (st\<lparr>input_items := input_items st @ [InputItem msg ''user''],
               m_context := snd (run (m_current_agent st)
                                  (input_items st @ [InputItem msg ''user''])
                                  (m_context st))\<rparr>))"
proof -
  have a: "fst (chat_session run loads dumps repr s msg) = Inl e \<and>
      current_agent (snd (chat_session run loads dumps repr s msg)) = current_agent s \<and>
      s_conversation_id (snd (chat_session run loads dumps repr s msg)) = s_conversation_id s \<and>
      items (snd (chat_session run loads dumps repr s msg)) = items s @ [InputItem msg ''user''] \<and>
      s_context (snd (chat_session run loads dumps repr s msg))
        = snd (run (current_agent s) (items s @ [InputItem msg ''user'']) (turn_context s))"
    if "fst (run (current_agent s) (items s @ [InputItem msg ''user'']) (turn_context s)) = Inl e"
    using chat_session_failed [of run s msg e loads dumps repr] that by simp
  have b: "s_context (snd (chat_session run loads dumps repr s msg)) = s_context s"
    if r: "run (current_agent s) (items s @ [InputItem msg ''user'']) (s_context s)
             = (Inl e, s_context s)"
      and c: "str_truthy (conversation_id (s_context s))"
  proof -
    have tc: "turn_context s = s_context s"
      using c by (simp add: turn_context_cases)
    show ?thesis
      using chat_session_failed [of run s msg e loads dumps repr] r tc by simp
  qed
  show ?thesis
    using a b main_turn_failed [of run st msg e loads repr cid]
    by (simp add: turn_context_cases)
qed

theorem failed_turn_state_witness:
  "fst (chat_session (update_then_raise ''Paris'' (AgentError ''boom''))
         not_json no_repr no_repr
         \<lparr>s_conversation_id = ''c1'', current_agent = destination_research_agent,
          items = [InputItem ''hi'' ''user''],
          s_context = \<lparr>destination = None, start_date = Some ''2025-05-01'', end_date = None,
                       budget = Some ''600'', travel_style = None,
                       number_of_people = Some 2, conversation_id = Some ''c1''\<rparr>\<rparr>
         ''go'') = Inl (AgentError ''boom'') \<and>
   snd (chat_session (update_then_raise ''Paris'' (AgentError ''boom''))
         not_json no_repr no_repr
         \<lparr>s_conversation_id = ''c1'', current_agent = destination_research_agent,
          items = [InputItem ''hi'' ''user''],
          s_context = \<lparr>destination = None, start_date = Some ''2025-05-01'', end_date = None,
                       budget = Some ''600'', travel_style = None,
                       number_of_people = Some 2, conversation_id = Some ''c1''\<rparr>\<rparr>
         ''go'')
     = \<lparr>s_conversation_id = ''c1'', current_agent = destination_research_agent,
        items = [InputItem ''hi'' ''user'', InputItem ''go'' ''user''],
        s_context = \<lparr>destination = Some ''Paris'', start_date = Some ''2025-05-01'',
                     end_date = None, budget = Some ''600'', travel_style = None,
                     number_of_people = Some 2, conversation_id = Some ''c1''\<rparr>\<rparr> \<and>
   s_context (snd (chat_session (raising (AgentError ''boom''))
         not_json no_repr no_repr
         \<lparr>s_conversation_id = ''c1'', current_agent = destination_research_agent,
          items = [InputItem ''hi'' ''user''],
          s_context = \<lparr>destination = None, start_date = Some ''2025-05-01'', end_date = None,
                       budget = Some ''600'', travel_style = None,
                       number_of_people = Some 2, conversation_id = Some ''c1''\<rparr>\<rparr>
         ''go''))
     = \<lparr>destination = None, start_date = Some ''2025-05-01'', end_date = None,
        budget = Some ''600'', travel_style = None,
        number_of_people = Some 2, conversation_id = Some ''c1''\<rparr> \<and>
   s_context (snd (chat_session (raising (AgentError ''boom''))
         not_json no_repr no_repr
         \<lparr>s_conversation_id = ''c1'', current_agent = destination_research_agent,
          items = [InputItem ''hi'' ''user''],
          s_context = \<lparr>destination = None, start_date = Some ''2025-05-01'', end_date = None,
                       budget = Some ''600'', travel_style = None,
                       number_of_people = Some 2, conversation_id = None\<rparr>\<rparr>
         ''go''))
     = \<lparr>destination = None, start_date = Some ''2025-05-01'', end_date = None,
        budget = Some ''600'', travel_style = None,
        number_of_people = Some 2, conversation_id = Some ''c1''\<rparr> \<and>
   main_turn (update_then_raise ''Paris'' (AgentError ''boom'')) not_json no_repr ''c1''
     \<lparr>m_current_agent = destination_research_agent, input_items = [InputItem ''hi'' ''user''],
      m_context = \<lparr>destination = None, start_date = Some ''2025-05-01'', end_date = None,
                   budget = Some ''600'', travel_style = None,
                   number_of_people = Some 2, conversation_id = Some ''c1''\<rparr>\<rparr> ''go''
     = Inr \<lparr>m_current_agent = destination_research_agent,
            input_items = [InputItem ''hi'' ''user'', InputItem ''go'' ''user''],
            m_context = \<lparr>destination = Some ''Paris'', start_date = Some ''2025-05-01'',
                         end_date = None, budget = Some ''600'', travel_style = None,
                         number_of_people = Some 2, conversation_id = Some ''c1''\<rparr>\<rparr>"
proof -
  let ?E = "AgentError ''boom''"
  let ?ctx = "\<lparr>destination = None, start_date = Some ''2025-05-01'', end_date = None,
               budget = Some ''600'', travel_style = None,
               number_of_people = Some 2, conversation_id = Some ''c1''\<rparr>"
  let ?s = "\<lparr>s_conversation_id = ''c1'', current_agent = destination_research_agent,
             items = [InputItem ''hi'' ''user''], s_context = ?ctx\<rparr>"
  let ?cnone = "\<lparr>destination = None, start_date = Some ''2025-05-01'', end_date = None,
                budget = Some ''600'', travel_style = None,
                number_of_people = Some 2, conversation_id = None\<rparr>"
  let ?snone = "\<lparr>s_conversation_id = ''c1'', current_agent = destination_research_agent,
              items = [InputItem ''hi'' ''user''], s_context = ?cnone\<rparr>"
  let ?st = "\<lparr>m_current_agent = destination_research_agent,
              input_items = [InputItem ''hi'' ''user''], m_context = ?ctx\<rparr>"
  let ?upd = "update_then_raise ''Paris'' ?E"
  have t: "str_truthy (conversation_id (s_context ?s))"
    by (simp add: str_truthy_def)
  have t0: "\<not> str_truthy (conversation_id (s_context ?snone))"
    by (simp add: str_truthy_def)
  have r1: "fst (?upd (current_agent ?s) (items ?s @ [InputItem ''go'' ''user''])
                  (turn_context ?s)) = Inl ?E"
    by (simp add: update_then_raise_def)
  have r2: "raising ?E (current_agent ?s) (items ?s @ [InputItem ''go'' ''user''])
              (s_context ?s) = (Inl ?E, s_context ?s)"
    by (simp add: raising_def)
  have r3: "fst (raising ?E (current_agent ?snone) (items ?snone @ [InputItem ''go'' ''user''])
                  (turn_context ?snone)) = Inl ?E"
    by (simp add: raising_def)
  have r4: "fst (?upd (m_current_agent ?st) (input_items ?st @ [InputItem ''go'' ''user''])
                  (m_context ?st)) = Inl ?E"
    by (simp add: update_then_raise_def)
  have A: "fst (chat_session ?upd not_json no_repr no_repr ?s ''go'') = Inl ?E \<and>
           snd (chat_session ?upd not_json no_repr no_repr ?s ''go'')
             = ?s\<lparr>items := [InputItem ''hi'' ''user'', InputItem ''go'' ''user''],
                   s_context := ?ctx\<lparr>destination := Some ''Paris''\<rparr>\<rparr> \<and>
           main_turn ?upd not_json no_repr ''c1'' ?st ''go''
             = Inr (?st\<lparr>input_items := [InputItem ''hi'' ''user'', InputItem ''go'' ''user''],
                        m_context := ?ctx\<lparr>destination := Some ''Paris''\<rparr>\<rparr>)"
    using failed_turn_state [where run = ?upd and s = ?s and msg = "''go''" and e = ?E
        and loads = not_json and dumps = no_repr and repr = no_repr and st = ?st
        and cid = "''c1''"] r1 r4 t
    by (simp add: update_then_raise_def session.equality)
  have B: "s_context (snd (chat_session (raising ?E) not_json no_repr no_repr ?s ''go''))
             = ?ctx"
    using failed_turn_state [where run = "raising ?E" and s = ?s and msg = "''go''" and e = ?E
        and loads = not_json and dumps = no_repr and repr = no_repr and st = ?st
        and cid = "''c1''"] r2 t
    by simp
  have C: "s_context (snd (chat_session (raising ?E) not_json no_repr no_repr ?snone ''go''))
             = ?ctx"
    using failed_turn_state [where run = "raising ?E" and s = ?snone and msg = "''go''" and e = ?E
        and loads = not_json and dumps = no_repr and repr = no_repr and st = ?st
        and cid = "''c1''"] r3 t0
    by (simp add: raising_def)
  from A B C show ?thesis
    by simp
qed

section \<open>Itinerary store\<close>


lemma creatable_iff:
  "creatable name \<longleftrightarrow>
     CHR 0x00 \<notin> set name \<and> \<not> (CHR ''/'' \<in> set name \<or> NAME_MAX < length name)"
  by (auto simp: creatable_def)








section \<open>City resolver\<close>

lemma dropWhile_all: "list_all P xs \<Longrightarrow> dropWhile P (xs @ ys) = dropWhile P ys"
  by (induction xs) simp_all

lemma dropWhile_append_nonempty:
  assumes "dropWhile P s \<noteq> []"
  shows "dropWhile P (s @ t) = dropWhile P s @ t"
proof -
  from assms obtain x where "x \<in> set s" and "\<not> P x"
    by (auto simp: dropWhile_eq_Nil_conv)
  then show ?thesis
    by (rule dropWhile_append1)
qed

lemma strip_with_pad:
  assumes "list_all sp p1" and "list_all sp p2"
  shows "strip_with sp (p1 @ s @ p2) = strip_with sp s"
proof -
  have a: "dropWhile sp (p1 @ s @ p2) = dropWhile sp (s @ p2)"
    using assms(1) by (rule dropWhile_all)
  show ?thesis
  proof (cases "dropWhile sp s = []")
    case True
    then have "\<forall>x \<in> set (s @ p2). sp x"
      using assms(2) by (auto simp: dropWhile_eq_Nil_conv list_all_iff)
    then have b: "dropWhile sp (s @ p2) = []"
      by (simp only: dropWhile_eq_Nil_conv)
    show ?thesis
      by (simp only: strip_with_def a b True)
  next
    case False
    then have b: "dropWhile sp (s @ p2) = dropWhile sp s @ p2"
      by (rule dropWhile_append_nonempty)
    have c: "rev (dropWhile sp s @ p2) = rev p2 @ rev (dropWhile sp s)"
      by simp
    have "list_all sp (rev p2)"
      using assms(2) by (simp add: list_all_iff)
    then have d: "dropWhile sp (rev p2 @ rev (dropWhile sp s)) = dropWhile sp (rev (dropWhile sp s))"
      by (rule dropWhile_all)
    show ?thesis
      by (simp only: strip_with_def a b c d)
  qed
qed

lemma list_all2_dropWhile:
  assumes "list_all2 R xs ys" and "\<And>x y. R x y \<Longrightarrow> P x = P y"
  shows "list_all2 R (dropWhile P xs) (dropWhile P ys)"
  using assms(1)
proof (induction rule: list_all2_induct)
  case Nil
  show ?case by simp
next
  case (Cons x xs y ys)
  then show ?case
    using assms(2) [of x y] by simp
qed

lemma list_all2_strip_with:
  assumes "list_all2 R xs ys" and "\<And>x y. R x y \<Longrightarrow> P x = P y"
  shows "list_all2 R (strip_with P xs) (strip_with P ys)"
proof -
  have "list_all2 R (dropWhile P xs) (dropWhile P ys)"
    using assms by (rule list_all2_dropWhile)
  then have "list_all2 R (rev (dropWhile P xs)) (rev (dropWhile P ys))"
    by (simp only: list_all2_rev)
  then have "list_all2 R (dropWhile P (rev (dropWhile P xs))) (dropWhile P (rev (dropWhile P ys)))"
    using assms(2) by (rule list_all2_dropWhile)
  then show ?thesis
    by (simp only: strip_with_def list_all2_rev)
qed

lemma casefold_with_cong:
  "list_all2 (\<lambda>x y. f x = f y) xs ys \<Longrightarrow> casefold_with f xs = casefold_with f ys"
  by (induction rule: list_all2_induct) (simp_all add: casefold_with_def)

lemma normalize_city_name_variant:
  assumes "fold_respects_space L"
    and "list_all (u_isspace L) p1" and "list_all (u_isspace L) p2"
    and "list_all2 (\<lambda>x y. u_fold L x = u_fold L y) a b"
  shows "normalize_city_name L (p1 @ a @ p2) = normalize_city_name L b"
proof -
  have "u_isspace L x = u_isspace L y" if "u_fold L x = u_fold L y" for x y
    using assms(1) that unfolding fold_respects_space_def by blast
  with assms(4) have "list_all2 (\<lambda>x y. u_fold L x = u_fold L y)
          (strip_with (u_isspace L) a) (strip_with (u_isspace L) b)"
    by (rule list_all2_strip_with)
  then have "casefold_with (u_fold L) (strip_with (u_isspace L) a)
           = casefold_with (u_fold L) (strip_with (u_isspace L) b)"
    by (rule casefold_with_cong)
  moreover have "strip_with (u_isspace L) (p1 @ a @ p2) = strip_with (u_isspace L) a"
    using assms(2,3) by (rule strip_with_pad)
  ultimately show ?thesis
    by (simp only: normalize_city_name_def)
qed

lemma map_of_load_row_other:
  "\<not> (row_id L r \<noteq> None \<and> row_id L r \<noteq> Some 0 \<and> row_name r \<noteq> [] \<and>
      normalize_city_name L (row_name r) = k) \<Longrightarrow>
   map_of (load_row L r m) k = map_of m k"
  by (auto simp: load_row_def update_conv' split: option.splits)

lemma map_of_load_row_same:
  "row_id L r = Some cid \<Longrightarrow> cid \<noteq> 0 \<Longrightarrow> row_name r \<noteq> [] \<Longrightarrow>
   map_of (load_row L r m) (normalize_city_name L (row_name r)) = Some cid"
  by (simp add: load_row_def update_conv')

lemma map_of_load_row_dom:
  "map_of (load_row L r m) k \<noteq> None \<longleftrightarrow>
     map_of m k \<noteq> None \<or>
     (row_id L r \<noteq> None \<and> row_id L r \<noteq> Some 0 \<and> row_name r \<noteq> [] \<and>
      normalize_city_name L (row_name r) = k)"
  by (auto simp: load_row_def update_conv' split: option.splits)

lemma map_of_fold_load_row_other:
  "\<forall>r \<in> set rows. \<not> (row_id L r \<noteq> None \<and> row_id L r \<noteq> Some 0 \<and> row_name r \<noteq> [] \<and>
      normalize_city_name L (row_name r) = k) \<Longrightarrow>
   map_of (fold (load_row L) rows m) k = map_of m k"
  by (induction rows arbitrary: m) (simp_all add: map_of_load_row_other)

lemma map_of_fold_load_row_dom:
  "map_of (fold (load_row L) rows m) k \<noteq> None \<longleftrightarrow>
     map_of m k \<noteq> None \<or>
     (\<exists>r \<in> set rows. row_id L r \<noteq> None \<and> row_id L r \<noteq> Some 0 \<and> row_name r \<noteq> [] \<and>
        normalize_city_name L (row_name r) = k)"
proof (induction rows arbitrary: m)
  case Nil
  show ?case by simp
next
  case (Cons r rows)
  have "map_of (fold (load_row L) (r # rows) m) k \<noteq> None \<longleftrightarrow>
          map_of (load_row L r m) k \<noteq> None \<or>
          (\<exists>r \<in> set rows. row_id L r \<noteq> None \<and> row_id L r \<noteq> Some 0 \<and> row_name r \<noteq> [] \<and>
             normalize_city_name L (row_name r) = k)"
    using Cons.IH [of "load_row L r m"] by simp
  then show ?case
    unfolding map_of_load_row_dom by auto
qed

lemma map_of_fold_load_row_last:
  assumes "row_id L r = Some cid" and "cid \<noteq> 0" and "row_name r \<noteq> []"
    and "\<forall>r' \<in> set after. \<not> (row_id L r' \<noteq> None \<and> row_id L r' \<noteq> Some 0 \<and>
           row_name r' \<noteq> [] \<and>
           normalize_city_name L (row_name r') = normalize_city_name L (row_name r))"
  shows "map_of (fold (load_row L) (before @ [r] @ after) m) (normalize_city_name L (row_name r))
           = Some cid"
proof -
  have "map_of (fold (load_row L) (before @ [r] @ after) m) (normalize_city_name L (row_name r))
          = map_of (load_row L r (fold (load_row L) before m)) (normalize_city_name L (row_name r))"
    using map_of_fold_load_row_other [OF assms(4)] by simp
  then show ?thesis
    using map_of_load_row_same [OF assms(1,2,3)] by simp
qed

lemma load_city_mapping_again:
  "load_city_mapping L (snd (load_city_mapping L cache csv)) csv = load_city_mapping L cache csv"
  by (simp add: load_city_mapping_def Let_def)

lemma map_city_to_id_fresh:
  "fst (map_city_to_id L [] (Some rows) v)
     = map_of (fold (load_row L) rows []) (normalize_city_name L v)"
  by (simp add: map_city_to_id_def load_city_mapping_def Let_def)

lemma map_city_to_id_no_file: "fst (map_city_to_id L [] None v) = None"
  by (simp add: map_city_to_id_def load_city_mapping_def Let_def)

lemma map_city_to_id_cached:
  "cache \<noteq> [] \<Longrightarrow>
   map_city_to_id L cache csv v = (map_of cache (normalize_city_name L v), cache)"
  by (simp add: map_city_to_id_def load_city_mapping_def)

lemma map_city_to_id_cong:
  "normalize_city_name L v = normalize_city_name L w \<Longrightarrow>
   map_city_to_id L cache csv v = map_city_to_id L cache csv w"
  by (simp add: map_city_to_id_def)

lemma map_city_to_id_again:
  "fst (map_city_to_id L (snd (map_city_to_id L cache csv w)) csv v)
     = fst (map_city_to_id L cache csv v)"
proof -
  have "snd (map_city_to_id L cache csv w) = snd (load_city_mapping L cache csv)"
    by (simp add: map_city_to_id_def split: prod.splits)
  then show ?thesis
    by (simp add: map_city_to_id_def load_city_mapping_again split: prod.splits)
qed

lemma normalize_city_name_empty: "normalize_city_name L [] = []"
  by (simp add: normalize_city_name_def strip_with_def casefold_with_def)

lemma fold_respects_space_latin1: "fold_respects_space latin1_lib"
  by (auto simp: fold_respects_space_def latin1_lib_def latin1_fold_def latin1_isspace_def
      split: if_splits)

text \<open>
  Claim C8. \<open>map_city_to_id\<close> resolves a name through the table that
  \<open>load_city_mapping\<close> builds from the rows of the city file, keyed by the name stripped
  and case-folded.
  \<^item> A trim/case variant of a name, that is the name with every character replaced by one
    of the same case folding and padded with white space on either side, resolves to what
    the name resolves to, in the same call and in a later call that finds the cache of
    the first (whatever the cache and the file are).
  \<^item> The name of a row that is stored (its id is an integer other than 0, its name is not
    empty) resolves to the id of that row, when no later stored row has the same
    normalised name (a later row replaces the entry).
  \<^item> A name resolves to an id exactly when some stored row has the same normalised name;
    so a name absent from the table resolves to \<open>None\<close>, and so does the empty string
    when no stored row has a name of white space only.
  \<^item> Without a city file every name resolves to \<open>None\<close>; a non-empty cache is the table.

  No case raises: \<open>(name or "").strip().casefold()\<close> and \<open>dict.get\<close> are total, and the
  \<open>ValueError\<close> of \<open>int\<close> on a cell is caught in the loop, which goes on with the next
  row.
\<close>

theorem map_city_to_id_resolves:
  "(fold_respects_space L \<and> list_all (u_isspace L) p1 \<and> list_all (u_isspace L) p2 \<and>
    list_all2 (\<lambda>x y. u_fold L x = u_fold L y) v name \<longrightarrow>
      map_city_to_id L cache csv (p1 @ v @ p2) = map_city_to_id L cache csv name \<and>
      fst (map_city_to_id L (snd (map_city_to_id L cache csv name)) csv (p1 @ v @ p2))
        = fst (map_city_to_id L cache csv name)) \<and>
   (row_id L r = Some cid \<and> cid \<noteq> 0 \<and> row_name r \<noteq> [] \<and>
    (\<forall>r' \<in> set after. row_id L r' \<noteq> None \<and> row_id L r' \<noteq> Some 0 \<and> row_name r' \<noteq> [] \<longrightarrow>
       normalize_city_name L (row_name r') \<noteq> normalize_city_name L (row_name r)) \<longrightarrow>
      fst (map_city_to_id L [] (Some (before @ [r] @ after)) (row_name r)) = Some cid) \<and>
   (fst (map_city_to_id L [] (Some rows) name) \<noteq> None \<longleftrightarrow>
      (\<exists>r \<in> set rows. row_id L r \<noteq> None \<and> row_id L r \<noteq> Some 0 \<and> row_name r \<noteq> [] \<and>
         normalize_city_name L (row_name r) = normalize_city_name L name)) \<and>
   ((\<forall>r \<in> set rows. row_id L r \<noteq> None \<and> row_id L r \<noteq> Some 0 \<and> row_name r \<noteq> [] \<longrightarrow>
       normalize_city_name L (row_name r) \<noteq> []) \<longrightarrow>
      fst (map_city_to_id L [] (Some rows) []) = None) \<and>
   fst (map_city_to_id L [] None name) = None \<and>
   (cache \<noteq> [] \<longrightarrow>
      map_city_to_id L cache csv name = (map_of cache (normalize_city_name L name), cache))"
proof -
  have a: "map_city_to_id L cache csv (p1 @ v @ p2) = map_city_to_id L cache csv name \<and>
      fst (map_city_to_id L (snd (map_city_to_id L cache csv name)) csv (p1 @ v @ p2))
        = fst (map_city_to_id L cache csv name)"
    if "fold_respects_space L" and "list_all (u_isspace L) p1" and "list_all (u_isspace L) p2"
      and "list_all2 (\<lambda>x y. u_fold L x = u_fold L y) v name"
  proof -
    have n: "normalize_city_name L (p1 @ v @ p2) = normalize_city_name L name"
      using that by (rule normalize_city_name_variant)
    have 1: "map_city_to_id L cache csv (p1 @ v @ p2) = map_city_to_id L cache csv name"
      using n by (rule map_city_to_id_cong)
    have "fst (map_city_to_id L (snd (map_city_to_id L cache csv name)) csv (p1 @ v @ p2))
            = fst (map_city_to_id L cache csv (p1 @ v @ p2))"
      by (rule map_city_to_id_again)
    with 1 show ?thesis
      by simp
  qed
  have b: "fst (map_city_to_id L [] (Some (before @ [r] @ after)) (row_name r)) = Some cid"
    if "row_id L r = Some cid" and "cid \<noteq> 0" and "row_name r \<noteq> []"
      and "\<forall>r' \<in> set after. row_id L r' \<noteq> None \<and> row_id L r' \<noteq> Some 0 \<and> row_name r' \<noteq> [] \<longrightarrow>
             normalize_city_name L (row_name r') \<noteq> normalize_city_name L (row_name r)"
  proof -
    have "\<forall>r' \<in> set after. \<not> (row_id L r' \<noteq> None \<and> row_id L r' \<noteq> Some 0 \<and>
            row_name r' \<noteq> [] \<and>
            normalize_city_name L (row_name r') = normalize_city_name L (row_name r))"
      using that(4) by blast
    then have "map_of (fold (load_row L) (before @ [r] @ after) [])
                 (normalize_city_name L (row_name r)) = Some cid"
      by (rule map_of_fold_load_row_last [OF that(1,2,3)])
    then show ?thesis
      by (simp only: map_city_to_id_fresh)
  qed
  have c: "fst (map_city_to_id L [] (Some rows) w) \<noteq> None \<longleftrightarrow>
      (\<exists>r \<in> set rows. row_id L r \<noteq> None \<and> row_id L r \<noteq> Some 0 \<and> row_name r \<noteq> [] \<and>
         normalize_city_name L (row_name r) = normalize_city_name L w)" for w
    unfolding map_city_to_id_fresh map_of_fold_load_row_dom by simp
  have d: "fst (map_city_to_id L [] (Some rows) []) = None"
    if "\<forall>r \<in> set rows. row_id L r \<noteq> None \<and> row_id L r \<noteq> Some 0 \<and> row_name r \<noteq> [] \<longrightarrow>
          normalize_city_name L (row_name r) \<noteq> []"
    using c [of "[]"] that unfolding normalize_city_name_empty by blast
  have e: "fst (map_city_to_id L [] None name) = None"
    by (rule map_city_to_id_no_file)
  have f: "map_city_to_id L cache csv name = (map_of cache (normalize_city_name L name), cache)"
    if "cache \<noteq> []"
    using that by (rule map_city_to_id_cached)
  from a b c [of name] d e f show ?thesis
    by blast
qed

theorem map_city_to_id_resolves_witness:
  "fst (map_city_to_id latin1_lib [] (Some city_csv_example)
         ([160, 32] @ [90, 220, 82, 73, 67, 72] @ [9])) = Some 9 \<and>
   fst (map_city_to_id latin1_lib [] (Some city_csv_example) [90, 252, 114, 105, 99, 104])
     = Some 9 \<and>
   fst (map_city_to_id latin1_lib [] (Some city_csv_example)
         ([32] @ [112, 97, 114, 105, 115] @ [32])) = Some 15470 \<and>
   fst (map_city_to_id latin1_lib
         (snd (map_city_to_id latin1_lib [] (Some city_csv_example) [80, 97, 114, 105, 115]))
         (Some city_csv_example) ([32] @ [112, 97, 114, 105, 115] @ [32])) = Some 15470 \<and>
   fst (map_city_to_id latin1_lib [] (Some city_csv_example) [80, 97, 114, 105, 115])
     = Some 15470 \<and>
   fst (map_city_to_id latin1_lib [] (Some city_csv_example) [82, 111, 109, 101]) = None \<and>
   fst (map_city_to_id latin1_lib [] (Some city_csv_example) [79, 115, 108, 111]) = None \<and>
   fst (map_city_to_id latin1_lib [] (Some city_csv_example) []) = None \<and>
   fst (map_city_to_id latin1_lib [] None [80, 97, 114, 105, 115]) = None \<and>
   map_city_to_id latin1_lib [([112, 97, 114, 105, 115], 15470)] None [80, 97, 114, 105, 115]
     = (Some 15470, [([112, 97, 114, 105, 115], 15470)])"
proof -
  let ?paris = "[''city_id'' \<mapsto> [49, 53, 52, 55, 48], ''city'' \<mapsto> [80, 97, 114, 105, 115]]
                  :: nat csv_row"
  let ?zurich = "[''city_id'' \<mapsto> [], ''cityId'' \<mapsto> [57],
                  ''city_name'' \<mapsto> [90, 252, 114, 105, 99, 104]] :: nat csv_row"
  let ?rome = "[''city_id'' \<mapsto> [110, 47, 97], ''city'' \<mapsto> [82, 111, 109, 101]] :: nat csv_row"
  let ?oslo = "[''city_id'' \<mapsto> [48], ''city'' \<mapsto> [79, 115, 108, 111]] :: nat csv_row"
  have csv: "city_csv_example = [?paris] @ [?zurich] @ [?rome, ?oslo]"
    "city_csv_example = [] @ [?paris] @ [?zurich, ?rome, ?oslo]"
    by (simp_all add: city_csv_example_def)
  have ids: "row_id latin1_lib ?paris = Some 15470" "row_id latin1_lib ?zurich = Some 9"
    "row_id latin1_lib ?rome = None" "row_id latin1_lib ?oslo = Some 0"
    by (simp_all add: row_id_def str_or_def latin1_lib_def latin1_int_def strip_with_def
        latin1_isspace_def latin1_isdigit_def)
  have names: "row_name ?paris = [80, 97, 114, 105, 115]"
    "row_name ?zurich = [90, 252, 114, 105, 99, 104]"
    "row_name ?rome = [82, 111, 109, 101]" "row_name ?oslo = [79, 115, 108, 111]"
    by (simp_all add: row_name_def str_or_def)
  have norm: "normalize_city_name latin1_lib [80, 97, 114, 105, 115] = [112, 97, 114, 105, 115]"
    "normalize_city_name latin1_lib [90, 252, 114, 105, 99, 104] = [122, 252, 114, 105, 99, 104]"
    "normalize_city_name latin1_lib [82, 111, 109, 101] = [114, 111, 109, 101]"
    "normalize_city_name latin1_lib [79, 115, 108, 111] = [111, 115, 108, 111]"
    by (simp_all add: normalize_city_name_def strip_with_def casefold_with_def latin1_lib_def
        latin1_isspace_def latin1_fold_def)
  have sp: "list_all (u_isspace latin1_lib) [160, 32]" "list_all (u_isspace latin1_lib) [9]"
    "list_all (u_isspace latin1_lib) [32]"
    by (simp_all add: latin1_lib_def latin1_isspace_def)
  have var: "list_all2 (\<lambda>x y. u_fold latin1_lib x = u_fold latin1_lib y)
               [90, 220, 82, 73, 67, 72] [90, 252, 114, 105, 99, 104]"
    "list_all2 (\<lambda>x y. u_fold latin1_lib x = u_fold latin1_lib y)
               [112, 97, 114, 105, 115] [80, 97, 114, 105, 115]"
    by (simp_all add: latin1_lib_def latin1_fold_def)
  have z: "fst (map_city_to_id latin1_lib [] (Some city_csv_example)
                 ([160, 32] @ [90, 220, 82, 73, 67, 72] @ [9])) = Some 9 \<and>
           fst (map_city_to_id latin1_lib [] (Some city_csv_example)
                 [90, 252, 114, 105, 99, 104]) = Some 9"
    using map_city_to_id_resolves [where L = latin1_lib and ?p1.0 = "[160, 32]" and ?p2.0 = "[9]"
        and v = "[90, 220, 82, 73, 67, 72]" and name = "[90, 252, 114, 105, 99, 104]"
        and cache = "[]" and csv = "Some city_csv_example" and r = ?zurich and cid = 9
        and before = "[?paris]" and after = "[?rome, ?oslo]"]
      fold_respects_space_latin1 sp var ids names norm csv(1)
    by simp
  have p: "fst (map_city_to_id latin1_lib [] (Some city_csv_example)
                 ([32] @ [112, 97, 114, 105, 115] @ [32])) = Some 15470 \<and>
           fst (map_city_to_id latin1_lib
                 (snd (map_city_to_id latin1_lib [] (Some city_csv_example)
                        [80, 97, 114, 105, 115]))
                 (Some city_csv_example) ([32] @ [112, 97, 114, 105, 115] @ [32]))
             = Some 15470 \<and>
           fst (map_city_to_id latin1_lib [] (Some city_csv_example) [80, 97, 114, 105, 115])
             = Some 15470"
    using map_city_to_id_resolves [where L = latin1_lib and ?p1.0 = "[32]" and ?p2.0 = "[32]"
        and v = "[112, 97, 114, 105, 115]" and name = "[80, 97, 114, 105, 115]"
        and cache = "[]" and csv = "Some city_csv_example" and r = ?paris and cid = 15470
        and before = "[]" and after = "[?zurich, ?rome, ?oslo]"]
      fold_respects_space_latin1 sp var ids names norm csv(2)
    by simp
  have absent: "fst (map_city_to_id latin1_lib [] (Some city_csv_example) [82, 111, 109, 101])
                  = None"
    "fst (map_city_to_id latin1_lib [] (Some city_csv_example) [79, 115, 108, 111]) = None"
    using map_city_to_id_resolves [where L = latin1_lib and rows = city_csv_example
        and name = "[82, 111, 109, 101]"]
      map_city_to_id_resolves [where L = latin1_lib and rows = city_csv_example
        and name = "[79, 115, 108, 111]"]
      ids names norm
    by (simp_all add: city_csv_example_def)
  have empty: "fst (map_city_to_id latin1_lib [] (Some city_csv_example) []) = None"
    using map_city_to_id_resolves [where L = latin1_lib and rows = city_csv_example]
      ids names norm
    by (simp add: city_csv_example_def)
  have rest: "fst (map_city_to_id latin1_lib [] None [80, 97, 114, 105, 115]) = None"
    "map_city_to_id latin1_lib [([112, 97, 114, 105, 115], 15470)] None [80, 97, 114, 105, 115]
       = (Some 15470, [([112, 97, 114, 105, 115], 15470)])"
    using map_city_to_id_resolves [where L = latin1_lib and name = "[80, 97, 114, 105, 115]"
        and cache = "[([112, 97, 114, 105, 115], 15470)]" and csv = None]
      norm
    by simp_all
  from z p absent empty rest show ?thesis
    by simp
qed

end
